theory Spec2Isabelle
  imports Main "HOL-Library.AList"
begin

section \<open>The pipelined management CLI, \<^verbatim>\<open>lte/gateway/python/scripts/pipelined_cli.py\<close>\<close>

text \<open>
  The script builds protocol messages from parsed command-line arguments, sends them
  through a gRPC stub and prints what comes back. The embedding keeps the three effects
  apart: the messages handed to the stub (in order), the lines printed, and the
  exception that leaves the function, if any.
\<close>

subsection \<open>Exceptions\<close>

text \<open>
  \<open>CalledProcessError rc\<close> is \<^verbatim>\<open>subprocess.CalledProcessError\<close> with its return code,
  \<open>KeyError k\<close> a missing dictionary key, \<open>AttributeError\<close> a method call on \<^verbatim>\<open>None\<close>,
  \<open>ValueError\<close> what a message constructor raises for an integer outside its field's
  type, and \<open>OtherError\<close> stands for every other exception a collaborator may raise.
\<close>

datatype exn =
    CalledProcessError int
  | KeyError string
  | AttributeError
  | ValueError
  | OtherError string

text \<open>\<^verbatim>\<open>errno.EPERM\<close>, the operating system's "operation not permitted".\<close>

definition EPERM :: int where
  "EPERM = 1"

subsection \<open>Protocol messages\<close>

text \<open>
  \<^verbatim>\<open>RequestOriginType(type=RequestOriginType.GX)\<close> wraps one enumeration value; the
  message is modelled by that value.
\<close>

datatype RequestOriginType = GX | GY

datatype Direction = UPLINK | DOWNLINK

record 'ip FlowMatch =
  ip_src :: "'ip option"
  ip_dst :: "'ip option"
  direction :: Direction

record 'ip FlowDescription =
  match :: "'ip FlowMatch"

record RedirectInformation =
  support :: int
  address_type :: int
  server_address :: string

text \<open>
  A field the source leaves out of a message constructor holds the protocol's default:
  \<open>0\<close> for a number, the empty list for a repeated field, absent (\<open>None\<close>) for a
  sub-message.
\<close>

record 'ip PolicyRule =
  id :: string
  priority :: int
  hard_timeout :: int
  flow_list :: "'ip FlowDescription list"
  redirect :: "RedirectInformation option"

record ('sid, 'ip) ActivateFlowsRequest =
  sid :: 'sid
  ip_addr :: string
  rule_ids :: "string list"
  dynamic_rules :: "'ip PolicyRule list"
  request_origin :: RequestOriginType

record 'sid DeactivateFlowsRequest =
  sid :: 'sid
  ip_addr :: string
  rule_ids :: "string list"
  request_origin :: RequestOriginType

record RuleModResult =
  rule_id :: string
  result :: int

record ActivateFlowsResult =
  static_rule_results :: "RuleModResult list"
  dynamic_rule_results :: "RuleModResult list"

record 'sid SubscriberQuotaUpdate =
  sid :: 'sid
  mac_addr :: string
  update_type :: int

record 'sid UpdateSubscriberQuotaStateRequest =
  updates :: "'sid SubscriberQuotaUpdate list"

record TableAssignment =
  app_name :: string
  main_table :: nat
  scratch_tables :: "nat list"

record AllTableAssignments =
  table_assignments :: "TableAssignment list"

text \<open>\<^verbatim>\<open>magma.pipelined.service_manager.Tables\<close>, a named tuple.\<close>

record Tables =
  main_table :: nat
  type :: "string option"
  scratch_tables :: "nat list"

subsection \<open>Integer fields\<close>

text \<open>
  A message constructor checks an integer against the type its field is declared with
  and raises \<^verbatim>\<open>ValueError\<close> outside it; an enumeration field of an open enumeration
  takes every 32-bit signed integer. The declarations are in the protocol files, not in
  the script, so the type of each field that the script fills from an integer argument
  is a parameter (see \<open>collaborators\<close>).
\<close>

datatype int_field = INT32 | INT64 | UINT32 | UINT64

definition in_range :: "int_field \<Rightarrow> int \<Rightarrow> bool" where
  "in_range t n =
     (case t of
        INT32 \<Rightarrow> - (2 ^ 31) \<le> n \<and> n < 2 ^ 31
      | INT64 \<Rightarrow> - (2 ^ 63) \<le> n \<and> n < 2 ^ 63
      | UINT32 \<Rightarrow> 0 \<le> n \<and> n < 2 ^ 32
      | UINT64 \<Rightarrow> 0 \<le> n \<and> n < 2 ^ 64)"

subsection \<open>Parsed arguments\<close>

text \<open>
  The \<^verbatim>\<open>argparse\<close> namespace, with the attributes of every subcommand. An option
  without a default (\<^verbatim>\<open>--rule_ids\<close> of the deactivation commands, \<^verbatim>\<open>--apps\<close>,
  \<^verbatim>\<open>--table_num\<close>) is \<^verbatim>\<open>None\<close> when omitted.
\<close>

record args =
  imsi :: string
  ipv4 :: string
  rule_ids :: "string option"
  rule_id :: string
  ipv4_dst :: string
  priority :: int
  hard_timeout :: int
  redirect_addr :: string
  mac :: string
  update_type :: int
  apps :: "string option"
  table_num :: "string option"

subsection \<open>Collaborators outside the script\<close>

text \<open>
  Functions the script imports and calls. Each may raise, so each returns a sum. With
  them, the declared types of the three message fields that take an integer argument:
  \<^verbatim>\<open>PolicyRule.priority\<close>, \<^verbatim>\<open>PolicyRule.hard_timeout\<close> and
  \<^verbatim>\<open>SubscriberQuotaUpdate.update_type\<close>.
\<close>

record ('sid, 'ip) collaborators =
  to_pb :: "string \<Rightarrow> exn + 'sid"
  convert_ipv4_str_to_ip_proto :: "string \<Rightarrow> exn + 'ip"
  Result_Name :: "int \<Rightarrow> exn + string"
  load_service_config :: "string \<Rightarrow> exn + (string \<Rightarrow> string option)"
  get_flows_for_bridge :: "string \<Rightarrow> string option \<Rightarrow> exn + string list"
  get_annotated_flows_for_bridge ::
    "string \<Rightarrow> (string \<times> Tables) list \<Rightarrow> string list option \<Rightarrow> exn + string list"
  priority_field :: int_field
  hard_timeout_field :: int_field
  update_type_field :: int_field

text \<open>The gRPC stub: one function per remote procedure the script calls.\<close>

record ('sid, 'ip) PipelinedStub =
  ActivateFlows :: "('sid, 'ip) ActivateFlowsRequest \<Rightarrow> exn + ActivateFlowsResult"
  DeactivateFlows :: "'sid DeactivateFlowsRequest \<Rightarrow> exn + unit"
  UpdateSubscriberQuotaState :: "'sid UpdateSubscriberQuotaStateRequest \<Rightarrow> exn + unit option"
  GetAllTableAssignments :: "unit \<Rightarrow> exn + AllTableAssignments"

text \<open>What a command did: the remote calls it issued, the lines it printed, what it raised.\<close>

datatype ('sid, 'ip) rpc =
    ActivateFlows_rpc "('sid, 'ip) ActivateFlowsRequest"
  | DeactivateFlows_rpc "'sid DeactivateFlowsRequest"
  | UpdateSubscriberQuotaState_rpc "'sid UpdateSubscriberQuotaStateRequest"
  | GetAllTableAssignments_rpc

record ('sid, 'ip) outcome =
  rpcs :: "('sid, 'ip) rpc list"
  stdout :: "string list"
  raised :: "exn option"

subsection \<open>Python's \<^verbatim>\<open>str.split\<close> with a one-character separator\<close>

text \<open>
  \<^verbatim>\<open>s.split(',')\<close> cuts at every separator and keeps empty pieces, so the result is
  never the empty list: \<^verbatim>\<open>''.split(',') == ['']\<close>.
\<close>

fun split :: "char \<Rightarrow> string \<Rightarrow> string list" where
  "split sep [] = [[]]"
| "split sep (c # cs) =
     (if c = sep then [] # split sep cs
      else (case split sep cs of
              [] \<Rightarrow> [[c]]
            | w # ws \<Rightarrow> (c # w) # ws))"

subsection \<open>Enforcement commands\<close>

text \<open>The \<^verbatim>\<open>request = ActivateFlowsRequest(...)\<close> statement of \<^verbatim>\<open>activate_flows\<close>.\<close>

definition activate_flows_request ::
  "('sid, 'ip) collaborators \<Rightarrow> args \<Rightarrow> exn + ('sid, 'ip) ActivateFlowsRequest" where
  "activate_flows_request env a =
     (case to_pb env (args.imsi a) of
        Inl e \<Rightarrow> Inl e
      | Inr s \<Rightarrow>
          (case args.rule_ids a of
             None \<Rightarrow> Inl AttributeError
           | Some ids \<Rightarrow>
               Inr \<lparr>ActivateFlowsRequest.sid = s,
                    ActivateFlowsRequest.ip_addr = args.ipv4 a,
                    ActivateFlowsRequest.rule_ids = split CHR '','' ids,
                    dynamic_rules = [],
                    ActivateFlowsRequest.request_origin = GX\<rparr>))"

text \<open>\<^verbatim>\<open>_print_rule_mod_results\<close>: one line per result, the rule id and the result's name.\<close>

fun print_rule_mod_results ::
  "('sid, 'ip) collaborators \<Rightarrow> RuleModResult list \<Rightarrow> string list \<times> exn option" where
  "print_rule_mod_results env [] = ([], None)"
| "print_rule_mod_results env (r # rs) =
     (case Result_Name env (result r) of
        Inl e \<Rightarrow> ([], Some e)
      | Inr n \<Rightarrow>
          (case print_rule_mod_results env rs of
             (out, ex) \<Rightarrow> ((RuleModResult.rule_id r @ '' '' @ n) # out, ex)))"

definition activate_flows ::
  "('sid, 'ip) collaborators \<Rightarrow> ('sid, 'ip) PipelinedStub \<Rightarrow> args \<Rightarrow> ('sid, 'ip) outcome" where
  "activate_flows env client a =
     (case activate_flows_request env a of
        Inl e \<Rightarrow> \<lparr>rpcs = [], stdout = [], raised = Some e\<rparr>
      | Inr request \<Rightarrow>
          (case ActivateFlows client request of
             Inl e \<Rightarrow> \<lparr>rpcs = [ActivateFlows_rpc request], stdout = [], raised = Some e\<rparr>
           | Inr response \<Rightarrow>
               (case print_rule_mod_results env (static_rule_results response) of
                  (out, ex) \<Rightarrow>
                    \<lparr>rpcs = [ActivateFlows_rpc request], stdout = out, raised = ex\<rparr>)))"

text \<open>
  \<^verbatim>\<open>args.rule_ids.split(',') if args.rule_ids else []\<close>: \<^verbatim>\<open>None\<close> and the empty
  string are both false.
\<close>

definition deactivate_flows_request ::
  "('sid, 'ip) collaborators \<Rightarrow> args \<Rightarrow> exn + 'sid DeactivateFlowsRequest" where
  "deactivate_flows_request env a =
     (case to_pb env (args.imsi a) of
        Inl e \<Rightarrow> Inl e
      | Inr s \<Rightarrow>
          Inr \<lparr>DeactivateFlowsRequest.sid = s,
               DeactivateFlowsRequest.ip_addr = args.ipv4 a,
               DeactivateFlowsRequest.rule_ids =
                 (case args.rule_ids a of
                    None \<Rightarrow> []
                  | Some ids \<Rightarrow> (if ids \<noteq> [] then split CHR '','' ids else [])),
               DeactivateFlowsRequest.request_origin = GX\<rparr>)"

definition deactivate_flows ::
  "('sid, 'ip) collaborators \<Rightarrow> ('sid, 'ip) PipelinedStub \<Rightarrow> args \<Rightarrow> ('sid, 'ip) outcome" where
  "deactivate_flows env client a =
     (case deactivate_flows_request env a of
        Inl e \<Rightarrow> \<lparr>rpcs = [], stdout = [], raised = Some e\<rparr>
      | Inr request \<Rightarrow>
          \<lparr>rpcs = [DeactivateFlows_rpc request], stdout = [],
           raised = (case DeactivateFlows client request of Inl e \<Rightarrow> Some e | Inr u \<Rightarrow> None)\<rparr>)"

text \<open>
  \<^verbatim>\<open>activate_dynamic_rule\<close>: the address converter is called once per flow description,
  on the same argument; then the \<^verbatim>\<open>PolicyRule\<close> constructor checks the caller's priority
  and hard timeout against their fields and raises \<^verbatim>\<open>ValueError\<close> when one does not
  fit, so that no request is built.
\<close>

definition activate_dynamic_rule_request ::
  "('sid, 'ip) collaborators \<Rightarrow> args \<Rightarrow> exn + ('sid, 'ip) ActivateFlowsRequest" where
  "activate_dynamic_rule_request env a =
     (case to_pb env (args.imsi a) of
        Inl e \<Rightarrow> Inl e
      | Inr s \<Rightarrow>
          (case convert_ipv4_str_to_ip_proto env (args.ipv4_dst a) of
             Inl e \<Rightarrow> Inl e
           | Inr dst \<Rightarrow>
               (case convert_ipv4_str_to_ip_proto env (args.ipv4_dst a) of
                  Inl e \<Rightarrow> Inl e
                | Inr src \<Rightarrow>
                    (if in_range (priority_field env) (args.priority a) \<and>
                        in_range (hard_timeout_field env) (args.hard_timeout a)
                     then
                       Inr \<lparr>ActivateFlowsRequest.sid = s,
                            ActivateFlowsRequest.ip_addr = args.ipv4 a,
                            ActivateFlowsRequest.rule_ids = [],
                            dynamic_rules =
                              [\<lparr>PolicyRule.id = args.rule_id a,
                                PolicyRule.priority = args.priority a,
                                PolicyRule.hard_timeout = args.hard_timeout a,
                                flow_list =
                                  [\<lparr>match = \<lparr>ip_src = None, ip_dst = Some dst,
                                              direction = UPLINK\<rparr>\<rparr>,
                                   \<lparr>match = \<lparr>ip_src = Some src, ip_dst = None,
                                              direction = DOWNLINK\<rparr>\<rparr>],
                                redirect = None\<rparr>],
                            ActivateFlowsRequest.request_origin = GX\<rparr>
                     else Inl ValueError))))"

definition activate_dynamic_rule ::
  "('sid, 'ip) collaborators \<Rightarrow> ('sid, 'ip) PipelinedStub \<Rightarrow> args \<Rightarrow> ('sid, 'ip) outcome" where
  "activate_dynamic_rule env client a =
     (case activate_dynamic_rule_request env a of
        Inl e \<Rightarrow> \<lparr>rpcs = [], stdout = [], raised = Some e\<rparr>
      | Inr request \<Rightarrow>
          (case ActivateFlows client request of
             Inl e \<Rightarrow> \<lparr>rpcs = [ActivateFlows_rpc request], stdout = [], raised = Some e\<rparr>
           | Inr response \<Rightarrow>
               (case print_rule_mod_results env (dynamic_rule_results response) of
                  (out, ex) \<Rightarrow>
                    \<lparr>rpcs = [ActivateFlows_rpc request], stdout = out, raised = ex\<rparr>)))"

text \<open>
  \<^verbatim>\<open>activate_gy_redirect\<close> puts no integer argument into its message: the priority 999
  and the redirect's 1 and 2 are literals, which every integer field type takes.
\<close>

definition activate_gy_redirect_request ::
  "('sid, 'ip) collaborators \<Rightarrow> args \<Rightarrow> exn + ('sid, 'ip) ActivateFlowsRequest" where
  "activate_gy_redirect_request env a =
     (case to_pb env (args.imsi a) of
        Inl e \<Rightarrow> Inl e
      | Inr s \<Rightarrow>
          Inr \<lparr>ActivateFlowsRequest.sid = s,
               ActivateFlowsRequest.ip_addr = args.ipv4 a,
               ActivateFlowsRequest.rule_ids = [],
               dynamic_rules =
                 [\<lparr>PolicyRule.id = args.rule_id a,
                   PolicyRule.priority = 999,
                   PolicyRule.hard_timeout = 0,
                   flow_list = [],
                   redirect =
                     Some \<lparr>support = 1, address_type = 2,
                           server_address = args.redirect_addr a\<rparr>\<rparr>],
               ActivateFlowsRequest.request_origin = GY\<rparr>)"

definition activate_gy_redirect ::
  "('sid, 'ip) collaborators \<Rightarrow> ('sid, 'ip) PipelinedStub \<Rightarrow> args \<Rightarrow> ('sid, 'ip) outcome" where
  "activate_gy_redirect env client a =
     (case activate_gy_redirect_request env a of
        Inl e \<Rightarrow> \<lparr>rpcs = [], stdout = [], raised = Some e\<rparr>
      | Inr request \<Rightarrow>
          (case ActivateFlows client request of
             Inl e \<Rightarrow> \<lparr>rpcs = [ActivateFlows_rpc request], stdout = [], raised = Some e\<rparr>
           | Inr response \<Rightarrow>
               (case print_rule_mod_results env (dynamic_rule_results response) of
                  (out, ex) \<Rightarrow>
                    \<lparr>rpcs = [ActivateFlows_rpc request], stdout = out, raised = ex\<rparr>)))"

definition deactivate_gy_flows_request ::
  "('sid, 'ip) collaborators \<Rightarrow> args \<Rightarrow> exn + 'sid DeactivateFlowsRequest" where
  "deactivate_gy_flows_request env a =
     (case to_pb env (args.imsi a) of
        Inl e \<Rightarrow> Inl e
      | Inr s \<Rightarrow>
          Inr \<lparr>DeactivateFlowsRequest.sid = s,
               DeactivateFlowsRequest.ip_addr = args.ipv4 a,
               DeactivateFlowsRequest.rule_ids =
                 (case args.rule_ids a of
                    None \<Rightarrow> []
                  | Some ids \<Rightarrow> (if ids \<noteq> [] then split CHR '','' ids else [])),
               DeactivateFlowsRequest.request_origin = GY\<rparr>)"

definition deactivate_gy_flows ::
  "('sid, 'ip) collaborators \<Rightarrow> ('sid, 'ip) PipelinedStub \<Rightarrow> args \<Rightarrow> ('sid, 'ip) outcome" where
  "deactivate_gy_flows env client a =
     (case deactivate_gy_flows_request env a of
        Inl e \<Rightarrow> \<lparr>rpcs = [], stdout = [], raised = Some e\<rparr>
      | Inr request \<Rightarrow>
          \<lparr>rpcs = [DeactivateFlows_rpc request], stdout = [],
           raised = (case DeactivateFlows client request of Inl e \<Rightarrow> Some e | Inr u \<Rightarrow> None)\<rparr>)"

subsection \<open>Check-quota command\<close>

text \<open>
  The \<^verbatim>\<open>SubscriberQuotaUpdate\<close> constructor checks the caller's update type against its
  field and raises \<^verbatim>\<open>ValueError\<close> when it does not fit.
\<close>

definition update_quota_request ::
  "('sid, 'ip) collaborators \<Rightarrow> args \<Rightarrow> exn + 'sid UpdateSubscriberQuotaStateRequest" where
  "update_quota_request env a =
     (case to_pb env (args.imsi a) of
        Inl e \<Rightarrow> Inl e
      | Inr s \<Rightarrow>
          (if in_range (update_type_field env) (args.update_type a) then
             Inr \<lparr>updates =
                    [\<lparr>SubscriberQuotaUpdate.sid = s,
                      mac_addr = args.mac a,
                      SubscriberQuotaUpdate.update_type = args.update_type a\<rparr>]\<rparr>
           else Inl ValueError))"

definition update_quota ::
  "('sid, 'ip) collaborators \<Rightarrow> ('sid, 'ip) PipelinedStub \<Rightarrow> args \<Rightarrow> ('sid, 'ip) outcome" where
  "update_quota env client a =
     (case update_quota_request env a of
        Inl e \<Rightarrow> \<lparr>rpcs = [], stdout = [], raised = Some e\<rparr>
      | Inr request \<Rightarrow>
          (case UpdateSubscriberQuotaState client request of
             Inl e \<Rightarrow>
               \<lparr>rpcs = [UpdateSubscriberQuotaState_rpc request], stdout = [], raised = Some e\<rparr>
           | Inr res \<Rightarrow>
               \<lparr>rpcs = [UpdateSubscriberQuotaState_rpc request],
                stdout = (if res = None then [''Error updating check quota flows''] else []),
                raised = None\<rparr>))"

subsection \<open>Debugging commands\<close>

text \<open>
  The format specification \<^verbatim>\<open>{:<w}\<close> pads on the right with spaces up to width \<open>w\<close>
  and never truncates. \<^verbatim>\<open>str\<close> of a non-negative integer is its decimal numeral, and
  of a list of integers the numerals separated by \<^verbatim>\<open>", "\<close> in square brackets.
\<close>

definition ljust :: "nat \<Rightarrow> string \<Rightarrow> string" where
  "ljust w s = s @ replicate (w - length s) CHR '' ''"

fun str_nat :: "nat \<Rightarrow> string" where
  "str_nat n =
     (if n < 10 then [char_of (48 + n)]
      else str_nat (n div 10) @ [char_of (48 + n mod 10)])"

declare str_nat.simps [simp del]

fun join :: "string \<Rightarrow> string list \<Rightarrow> string" where
  "join sep [] = []"
| "join sep [x] = x"
| "join sep (x # y # ys) = x @ sep @ join sep (y # ys)"

definition str_list :: "nat list \<Rightarrow> string" where
  "str_list xs = ''['' @ join '', '' (map str_nat xs) @ '']''"

definition table_template :: "string \<Rightarrow> string \<Rightarrow> string \<Rightarrow> string" where
  "table_template x y z = ljust 25 x @ ljust 20 y @ ljust 25 z"

definition get_table_assignment ::
  "('sid, 'ip) PipelinedStub \<Rightarrow> args \<Rightarrow> ('sid, 'ip) outcome" where
  "get_table_assignment client a =
     (case GetAllTableAssignments client () of
        Inl e \<Rightarrow> \<lparr>rpcs = [GetAllTableAssignments_rpc], stdout = [], raised = Some e\<rparr>
      | Inr response \<Rightarrow>
          (let tas =
             (case args.apps a of
                None \<Rightarrow> table_assignments response
              | Some s \<Rightarrow>
                  (if s \<noteq> [] then
                     filter (\<lambda>ta. app_name ta \<in> set (split CHR '','' s))
                       (table_assignments response)
                   else table_assignments response))
           in \<lparr>rpcs = [GetAllTableAssignments_rpc],
               stdout =
                 table_template ''App'' ''Main Table'' ''Scratch Tables''
                 # replicate 70 CHR ''-''
                 # map (\<lambda>ta. table_template (app_name ta)
                                (str_nat (TableAssignment.main_table ta))
                                (str_list (TableAssignment.scratch_tables ta))) tas,
               raised = None\<rparr>))"

text \<open>
  \<^verbatim>\<open>display_raw_flows\<close> ignores its stub. Only \<^verbatim>\<open>CalledProcessError\<close> is caught; the
  message is printed for the return code \<^verbatim>\<open>errno.EPERM\<close> alone, and the function
  returns in either case.
\<close>

definition display_raw_flows ::
  "('sid, 'ip) collaborators \<Rightarrow> args \<Rightarrow> ('sid, 'ip) outcome" where
  "display_raw_flows env a =
     (case load_service_config env ''pipelined'' of
        Inl e \<Rightarrow> \<lparr>rpcs = [], stdout = [], raised = Some e\<rparr>
      | Inr pipelined_config \<Rightarrow>
          (case pipelined_config ''bridge_name'' of
             None \<Rightarrow> \<lparr>rpcs = [], stdout = [], raised = Some (KeyError ''bridge_name'')\<rparr>
           | Some bridge_name \<Rightarrow>
               (case get_flows_for_bridge env bridge_name (args.table_num a) of
                  Inl e \<Rightarrow>
                    (case e of
                       CalledProcessError returncode \<Rightarrow>
                         \<lparr>rpcs = [],
                          stdout = (if returncode = EPERM
                                    then [''Need to run as root to dump flows''] else []),
                          raised = None\<rparr>
                     | _ \<Rightarrow> \<lparr>rpcs = [], stdout = [], raised = Some e\<rparr>)
                | Inr flows \<Rightarrow> \<lparr>rpcs = [], stdout = flows, raised = None\<rparr>)))"

text \<open>
  The dictionary comprehension of \<^verbatim>\<open>_display_flows\<close>, application name to
  \<^verbatim>\<open>Tables\<close>: a name keeps its first position and its last value, as \<open>AList.update\<close>
  does.
\<close>

definition table_assignments_dict :: "TableAssignment list \<Rightarrow> (string \<times> Tables) list" where
  "table_assignments_dict tas =
     fold (\<lambda>ta. AList.update (app_name ta)
                  \<lparr>Tables.main_table = TableAssignment.main_table ta,
                   type = None,
                   Tables.scratch_tables = TableAssignment.scratch_tables ta\<rparr>)
       tas []"

text \<open>\<^verbatim>\<open>_display_flows(client, apps=None)\<close>, with the same handler as \<^verbatim>\<open>display_raw_flows\<close>.\<close>

definition private_display_flows ::
  "('sid, 'ip) collaborators \<Rightarrow> ('sid, 'ip) PipelinedStub \<Rightarrow> string list option
     \<Rightarrow> ('sid, 'ip) outcome" where
  "private_display_flows env client apps' =
     (case load_service_config env ''pipelined'' of
        Inl e \<Rightarrow> \<lparr>rpcs = [], stdout = [], raised = Some e\<rparr>
      | Inr pipelined_config \<Rightarrow>
          (case pipelined_config ''bridge_name'' of
             None \<Rightarrow> \<lparr>rpcs = [], stdout = [], raised = Some (KeyError ''bridge_name'')\<rparr>
           | Some bridge_name \<Rightarrow>
               (case GetAllTableAssignments client () of
                  Inl e \<Rightarrow>
                    \<lparr>rpcs = [GetAllTableAssignments_rpc], stdout = [], raised = Some e\<rparr>
                | Inr response \<Rightarrow>
                    (case get_annotated_flows_for_bridge env bridge_name
                            (table_assignments_dict (table_assignments response)) apps' of
                       Inl e \<Rightarrow>
                         (case e of
                            CalledProcessError returncode \<Rightarrow>
                              \<lparr>rpcs = [GetAllTableAssignments_rpc],
                               stdout = (if returncode = EPERM
                                         then [''Need to run as root to dump flows'']
                                         else []),
                               raised = None\<rparr>
                          | _ \<Rightarrow>
                              \<lparr>rpcs = [GetAllTableAssignments_rpc], stdout = [],
                               raised = Some e\<rparr>)
                     | Inr flows \<Rightarrow>
                         \<lparr>rpcs = [GetAllTableAssignments_rpc], stdout = flows,
                          raised = None\<rparr>))))"

definition display_flows ::
  "('sid, 'ip) collaborators \<Rightarrow> ('sid, 'ip) PipelinedStub \<Rightarrow> args \<Rightarrow> ('sid, 'ip) outcome" where
  "display_flows env client a =
     (case args.apps a of
        None \<Rightarrow> private_display_flows env client None
      | Some s \<Rightarrow> private_display_flows env client (Some (split CHR '','' s)))"

section \<open>The control plane behind the stub\<close>

text \<open>
  The script only sends requests; the Rule Store, the quota gate and the Table Allocator
  run in the pipelined service, whose code is not part of the script. The definitions of
  this section follow the specification's description of them.
\<close>

subsection \<open>Rule Store and deactivation\<close>

text \<open>
  Modelled from the spec: the rule activation record, kept per (subscriber, rule id,
  origin) (Section 3); the Rule Store itself is not in the script.
\<close>

record ('sid, 'r) activation_record =
  subscriber :: 'sid
  record_rule_id :: string
  origin :: RequestOriginType
  content :: 'r

text \<open>
  Modelled from the spec: \<^verbatim>\<open>remove(subscriber, rule_id, origin) -> bool\<close> of the Rule
  Store (Section 4.2), which removes one record if present and tells whether one existed;
  removing a record that does not exist is not an error.
\<close>

definition remove ::
  "('sid, 'r) activation_record list \<Rightarrow> 'sid \<Rightarrow> string \<Rightarrow> RequestOriginType
     \<Rightarrow> ('sid, 'r) activation_record list \<times> bool" where
  "remove store s rid orig =
     (filter (\<lambda>r. \<not> (subscriber r = s \<and> record_rule_id r = rid \<and> origin r = orig)) store,
      list_ex (\<lambda>r. subscriber r = s \<and> record_rule_id r = rid \<and> origin r = orig) store)"

text \<open>
  Modelled from the spec: \<^verbatim>\<open>remove_all(subscriber, origin) -> sequence[rule_id]\<close> of the
  Rule Store (Section 4.2), which removes every record of that subscriber and origin and
  returns the removed ids.
\<close>

definition remove_all ::
  "('sid, 'r) activation_record list \<Rightarrow> 'sid \<Rightarrow> RequestOriginType
     \<Rightarrow> ('sid, 'r) activation_record list \<times> string list" where
  "remove_all store s orig =
     (filter (\<lambda>r. \<not> (subscriber r = s \<and> origin r = orig)) store,
      map record_rule_id (filter (\<lambda>r. subscriber r = s \<and> origin r = orig) store))"

text \<open>
  Modelled from the spec: \<^verbatim>\<open>DeactivateFlows\<close> of the Flow Rule Controller (Section 4.3),
  the handler of the request the script sends: with rule ids it removes each named
  record, with none it removes all records of the (subscriber, origin).
\<close>

definition DeactivateFlows_handler ::
  "('sid, 'r) activation_record list \<Rightarrow> 'sid DeactivateFlowsRequest
     \<Rightarrow> ('sid, 'r) activation_record list" where
  "DeactivateFlows_handler store req =
     (if DeactivateFlowsRequest.rule_ids req = [] then
        fst (remove_all store (DeactivateFlowsRequest.sid req)
               (DeactivateFlowsRequest.request_origin req))
      else
        fold (\<lambda>rid st. fst (remove st (DeactivateFlowsRequest.sid req) rid
                                (DeactivateFlowsRequest.request_origin req)))
          (DeactivateFlowsRequest.rule_ids req) store)"

subsection \<open>Quota gate\<close>

text \<open>
  Modelled from the spec: the quota state of \<^verbatim>\<open>UpdateQuotaState\<close> (Section 4.3), a value
  of \<open>{VALID, EXHAUSTED, TERMINATE}\<close>; the service's quota controller is not in the script.
\<close>

datatype quota_state = VALID | EXHAUSTED | TERMINATE

text \<open>
  Modelled from the spec: the reading of the script's \<^verbatim>\<open>update_type\<close> numbers as quota
  states, as the subcommand's help text numbers them (0 valid quota, 1 no quota,
  2 terminate).
\<close>

definition quota_state_of :: "int \<Rightarrow> quota_state option" where
  "quota_state_of n =
     (if n = 0 then Some VALID
      else if n = 1 then Some EXHAUSTED
      else if n = 2 then Some TERMINATE
      else None)"

text \<open>
  Modelled from the spec: \<^verbatim>\<open>UpdateQuotaState(subscriber, mac_addr, quota_state)\<close>
  (Section 4.3) on the subscribers' quota-gating rules: \<open>TERMINATE\<close> removes the
  subscriber's gating rule, the other two states rewrite its content.
\<close>

definition UpdateQuotaState ::
  "('sid \<Rightarrow> (string \<times> quota_state) option) \<Rightarrow> 'sid \<Rightarrow> string \<Rightarrow> quota_state
     \<Rightarrow> ('sid \<Rightarrow> (string \<times> quota_state) option)" where
  "UpdateQuotaState gate s mac_address q =
     (case q of
        TERMINATE \<Rightarrow> gate(s := None)
      | _ \<Rightarrow> gate(s \<mapsto> (mac_address, q)))"

text \<open>
  Modelled from the spec: the service's handler of the request \<^verbatim>\<open>update_quota\<close> sends,
  which applies \<^verbatim>\<open>UpdateQuotaState\<close> (Section 4.3) for each update of the request, in
  order; an update whose type names no quota state changes nothing.
\<close>

definition UpdateSubscriberQuotaState_handler ::
  "('sid \<Rightarrow> (string \<times> quota_state) option) \<Rightarrow> 'sid UpdateSubscriberQuotaStateRequest
     \<Rightarrow> ('sid \<Rightarrow> (string \<times> quota_state) option)" where
  "UpdateSubscriberQuotaState_handler gate req =
     fold (\<lambda>u g. case quota_state_of (SubscriberQuotaUpdate.update_type u) of
                    None \<Rightarrow> g
                  | Some q \<Rightarrow>
                      UpdateQuotaState g (SubscriberQuotaUpdate.sid u) (mac_addr u) q)
       (updates req) gate"

subsection \<open>Table Allocator\<close>

text \<open>
  Modelled from the spec: the error kind \<^verbatim>\<open>TableSpaceConflict\<close> (Section 7), fatal and
  raised at startup only; the Table Allocator is not in the script.
\<close>

datatype config_error = TableSpaceConflict

text \<open>
  Modelled from the spec: the table numbers an application holds, its main table and its
  scratch tables (Section 3).
\<close>

definition tables_of :: "TableAssignment \<Rightarrow> nat list" where
  "tables_of ta = TableAssignment.main_table ta # TableAssignment.scratch_tables ta"

definition collides :: "TableAssignment \<Rightarrow> TableAssignment \<Rightarrow> bool" where
  "collides ta tb = list_ex (\<lambda>t. t \<in> set (tables_of tb)) (tables_of ta)"

text \<open>
  Modelled from the spec: \<^verbatim>\<open>register(app_name) -> TableAssignment\<close> of the Table Allocator
  (Section 4.1). The layout is fixed at process start and gives every application name
  its main table and scratch tables; registering an application again reproduces its
  assignment; an application whose tables collide with a registered one's is the fatal
  configuration error.
\<close>

definition register ::
  "(string \<Rightarrow> nat \<times> nat list) \<Rightarrow> TableAssignment list \<Rightarrow> string
     \<Rightarrow> config_error + (TableAssignment list \<times> TableAssignment)" where
  "register layout st app =
     (case find (\<lambda>t. app_name t = app) st of
        Some ta \<Rightarrow> Inr (st, ta)
      | None \<Rightarrow>
          (let ta = \<lparr>app_name = app,
                     TableAssignment.main_table = fst (layout app),
                     TableAssignment.scratch_tables = snd (layout app)\<rparr>
           in if list_ex (collides ta) st then Inl TableSpaceConflict
              else Inr (st @ [ta], ta)))"

text \<open>
  Modelled from the spec: process startup registers the applications one after the
  other and stops at the first conflict (Section 4.1); \<^verbatim>\<open>assignments()\<close> is the state
  it ends in.
\<close>

fun startup ::
  "(string \<Rightarrow> nat \<times> nat list) \<Rightarrow> string list \<Rightarrow> TableAssignment list
     \<Rightarrow> config_error + TableAssignment list" where
  "startup layout [] st = Inr st"
| "startup layout (app # rest) st =
     (case register layout st app of
        Inl e \<Rightarrow> Inl e
      | Inr (st', ta) \<Rightarrow> startup layout rest st')"

text \<open>
  Modelled from the spec: the invariant of table assignments (Section 3), one assignment
  per application name and the main and scratch tables of different applications
  pairwise disjoint.
\<close>

definition disjoint_assignments :: "TableAssignment list \<Rightarrow> bool" where
  "disjoint_assignments st \<longleftrightarrow>
     distinct (map app_name st) \<and>
     (\<forall>x \<in> set st. \<forall>y \<in> set st.
        app_name x \<noteq> app_name y \<longrightarrow> set (tables_of x) \<inter> set (tables_of y) = {})"

section \<open>Observations and sample inputs\<close>

text \<open>The priorities of the dynamic rules a command sent for activation, in order.\<close>

definition priorities_sent :: "('sid, 'ip) outcome \<Rightarrow> int list" where
  "priorities_sent out =
     concat (map (\<lambda>c. case c of
                         ActivateFlows_rpc r \<Rightarrow> map PolicyRule.priority (dynamic_rules r)
                       | _ \<Rightarrow> [])
               (rpcs out))"

text \<open>
  Collaborators that never fail (with unsigned 32-bit priority and hard timeout, and an
  update type that takes every signed 32-bit integer), a stub that acknowledges
  everything, and the argument defaults of the parsers, used to run the commands on
  concrete inputs.
\<close>

definition env0 :: "(string, string) collaborators" where
  "env0 =
     \<lparr>to_pb = Inr,
      convert_ipv4_str_to_ip_proto = Inr,
      Result_Name = (\<lambda>n. if n = 0 then Inr ''SUCCESS'' else Inl ValueError),
      load_service_config = (\<lambda>n. Inr [''bridge_name'' \<mapsto> ''gtp_br0'']),
      get_flows_for_bridge = (\<lambda>b t. Inr []),
      get_annotated_flows_for_bridge = (\<lambda>b ts ap. Inr []),
      priority_field = UINT32,
      hard_timeout_field = UINT32,
      update_type_field = INT32\<rparr>"

definition assignments0 :: "TableAssignment list" where
  "assignments0 =
     [\<lparr>app_name = ''ue_mac'', TableAssignment.main_table = 1,
       TableAssignment.scratch_tables = []\<rparr>,
      \<lparr>app_name = ''enforcement'', TableAssignment.main_table = 13,
       TableAssignment.scratch_tables = [21, 22]\<rparr>]"

definition client0 :: "(string, string) PipelinedStub" where
  "client0 =
     \<lparr>ActivateFlows = (\<lambda>r. Inr \<lparr>static_rule_results = [], dynamic_rule_results = []\<rparr>),
      DeactivateFlows = (\<lambda>r. Inr ()),
      UpdateSubscriberQuotaState = (\<lambda>r. Inr (Some ())),
      GetAllTableAssignments = (\<lambda>u. Inr \<lparr>table_assignments = assignments0\<rparr>)\<rparr>"

definition args0 :: args where
  "args0 =
     \<lparr>imsi = ''IMSI12345'', ipv4 = ''120.12.1.9'', args.rule_ids = Some ''rule1,rule2'',
      args.rule_id = ''rule1'', ipv4_dst = '''', args.priority = 0, args.hard_timeout = 0,
      redirect_addr = ''http://about.sha.ddih.org/'', mac = ''5e:cc:cc:b1:49:ff'',
      args.update_type = 0, apps = None, table_num = None\<rparr>"

text \<open>A rule store holding one rule of each origin for the sample subscriber.\<close>

definition store0 :: "(string, unit) activation_record list" where
  "store0 =
     [\<lparr>subscriber = ''IMSI12345'', record_rule_id = ''rule1'', origin = GX, content = ()\<rparr>,
      \<lparr>subscriber = ''IMSI12345'', record_rule_id = ''redirect'', origin = GY, content = ()\<rparr>]"

text \<open>Collaborators whose flow dumps fail with \<^verbatim>\<open>CalledProcessError\<close> of a given return code.\<close>

definition env_dump_fails :: "int \<Rightarrow> (string, string) collaborators" where
  "env_dump_fails rc =
     env0\<lparr>get_flows_for_bridge := (\<lambda>b t. Inl (CalledProcessError rc)),
          get_annotated_flows_for_bridge := (\<lambda>b ts ap. Inl (CalledProcessError rc))\<rparr>"

text \<open>Collaborators whose flow dumps raise something else than \<^verbatim>\<open>CalledProcessError\<close>.\<close>

definition env_dump_raises :: "(string, string) collaborators" where
  "env_dump_raises =
     env0\<lparr>get_flows_for_bridge := (\<lambda>b t. Inl (OtherError ''FileNotFoundError'')),
          get_annotated_flows_for_bridge := (\<lambda>b ts ap. Inl (OtherError ''FileNotFoundError''))\<rparr>"

text \<open>
  A table layout in which \<^verbatim>\<open>enforcement_stats\<close> claims scratch table 22, which
  \<^verbatim>\<open>enforcement\<close> holds as well.
\<close>

definition layout0 :: "string \<Rightarrow> nat \<times> nat list" where
  "layout0 app =
     (if app = ''ue_mac'' then (1, [])
      else if app = ''enforcement'' then (13, [21, 22])
      else if app = ''enforcement_stats'' then (14, [22])
      else (20, []))"

section \<open>Properties of the script\<close>

subsection \<open>The string helper\<close>

lemma split_not_Nil: "split sep s \<noteq> []"
  by (induction s) (auto split: list.splits)

text \<open>
  The two facts that pin \<open>split\<close> down: the pieces joined by the separator give the
  string back, and no piece contains the separator.
\<close>

lemma join_split: "join [sep] (split sep s) = s"
proof (induction s)
  case Nil
  then show ?case by simp
next
  case (Cons c cs)
  then show ?case
    by (cases "split sep cs"; cases "tl (split sep cs)") (auto simp: split_not_Nil)
qed

lemma split_pieces: "w \<in> set (split sep s) \<Longrightarrow> sep \<notin> set w"
  by (induction s arbitrary: w) (auto split: if_splits list.splits)

subsection \<open>What each command sends\<close>

lemma rpcs_activate_flows:
  "rpcs (activate_flows env client a) =
     (case activate_flows_request env a of Inl e \<Rightarrow> [] | Inr r \<Rightarrow> [ActivateFlows_rpc r])"
  by (simp add: activate_flows_def split: sum.splits prod.splits)

lemma rpcs_deactivate_flows:
  "rpcs (deactivate_flows env client a) =
     (case deactivate_flows_request env a of Inl e \<Rightarrow> [] | Inr r \<Rightarrow> [DeactivateFlows_rpc r])"
  by (simp add: deactivate_flows_def split: sum.splits)

lemma rpcs_deactivate_gy_flows:
  "rpcs (deactivate_gy_flows env client a) =
     (case deactivate_gy_flows_request env a of
        Inl e \<Rightarrow> [] | Inr r \<Rightarrow> [DeactivateFlows_rpc r])"
  by (simp add: deactivate_gy_flows_def split: sum.splits)

lemma rpcs_activate_dynamic_rule:
  "rpcs (activate_dynamic_rule env client a) =
     (case activate_dynamic_rule_request env a of
        Inl e \<Rightarrow> [] | Inr r \<Rightarrow> [ActivateFlows_rpc r])"
  by (simp add: activate_dynamic_rule_def split: sum.splits prod.splits)

lemma rpcs_activate_gy_redirect:
  "rpcs (activate_gy_redirect env client a) =
     (case activate_gy_redirect_request env a of
        Inl e \<Rightarrow> [] | Inr r \<Rightarrow> [ActivateFlows_rpc r])"
  by (simp add: activate_gy_redirect_def split: sum.splits prod.splits)

lemma rpcs_update_quota:
  "rpcs (update_quota env client a) =
     (case update_quota_request env a of
        Inl e \<Rightarrow> [] | Inr r \<Rightarrow> [UpdateSubscriberQuotaState_rpc r])"
  by (simp add: update_quota_def split: sum.splits)

subsection \<open>Activation with an empty rule-id argument\<close>

text \<open>
  C9. When \<^verbatim>\<open>--rule_ids\<close> is the empty string, \<^verbatim>\<open>activate_flows\<close> sends a request
  whose rule ids are the one-element list holding the empty string, because splitting
  the empty string yields that list; \<^verbatim>\<open>deactivate_flows\<close> on the same arguments sends the
  empty list of rule ids. The two commands treat an empty rule-id argument differently.
\<close>

theorem activate_flows_empty_rule_ids:
  "args.rule_ids a = Some [] \<Longrightarrow> to_pb env (args.imsi a) = Inr s \<Longrightarrow>
     rpcs (activate_flows env client a) =
       [ActivateFlows_rpc
          \<lparr>ActivateFlowsRequest.sid = s, ActivateFlowsRequest.ip_addr = args.ipv4 a,
           ActivateFlowsRequest.rule_ids = [[]], dynamic_rules = [],
           ActivateFlowsRequest.request_origin = GX\<rparr>] \<and>
     rpcs (deactivate_flows env client a) =
       [DeactivateFlows_rpc
          \<lparr>DeactivateFlowsRequest.sid = s, DeactivateFlowsRequest.ip_addr = args.ipv4 a,
           DeactivateFlowsRequest.rule_ids = [],
           DeactivateFlowsRequest.request_origin = GX\<rparr>]"
  by (simp add: rpcs_activate_flows rpcs_deactivate_flows activate_flows_request_def
        deactivate_flows_request_def)

theorem activate_flows_empty_rule_ids_witness:
  "rpcs (activate_flows env0 client0 (args0\<lparr>args.rule_ids := Some []\<rparr>)) =
     [ActivateFlows_rpc
        \<lparr>ActivateFlowsRequest.sid = ''IMSI12345'',
         ActivateFlowsRequest.ip_addr = ''120.12.1.9'',
         ActivateFlowsRequest.rule_ids = [[]], dynamic_rules = [],
         ActivateFlowsRequest.request_origin = GX\<rparr>] \<and>
   rpcs (deactivate_flows env0 client0 (args0\<lparr>args.rule_ids := Some []\<rparr>)) =
     [DeactivateFlows_rpc
        \<lparr>DeactivateFlowsRequest.sid = ''IMSI12345'',
         DeactivateFlowsRequest.ip_addr = ''120.12.1.9'',
         DeactivateFlowsRequest.rule_ids = [],
         DeactivateFlowsRequest.request_origin = GX\<rparr>]"
  using activate_flows_empty_rule_ids
    [of "args0\<lparr>args.rule_ids := Some []\<rparr>" env0 "''IMSI12345''" client0]
  by (simp add: env0_def args0_def)

subsection \<open>Redirect activation\<close>

text \<open>
  C2. Every activation request that \<^verbatim>\<open>activate_gy_redirect\<close> sends has origin GY and
  exactly one dynamic rule; the rule has no flow descriptors, carries a redirect whose
  server address is the caller's \<^verbatim>\<open>--redirect_addr\<close>, and has priority 999 whatever the
  arguments are.
\<close>

theorem activate_gy_redirect_request_shape:
  "ActivateFlows_rpc req \<in> set (rpcs (activate_gy_redirect env client a)) \<Longrightarrow>
     ActivateFlowsRequest.request_origin req = GY \<and>
     (\<exists>rule rd.
        dynamic_rules req = [rule] \<and>
        flow_list rule = [] \<and>
        redirect rule = Some rd \<and>
        server_address rd = args.redirect_addr a \<and>
        PolicyRule.priority rule = 999)"
  by (auto simp: rpcs_activate_gy_redirect activate_gy_redirect_request_def split: sum.splits)

theorem activate_gy_redirect_request_shape_witness:
  "ActivateFlows_rpc
     \<lparr>ActivateFlowsRequest.sid = ''IMSI12345'',
      ActivateFlowsRequest.ip_addr = ''120.12.1.9'',
      ActivateFlowsRequest.rule_ids = [],
      dynamic_rules =
        [\<lparr>PolicyRule.id = ''rule1'', PolicyRule.priority = 999,
          PolicyRule.hard_timeout = 0, flow_list = [],
          redirect = Some \<lparr>support = 1, address_type = 2,
                            server_address = ''http://about.sha.ddih.org/''\<rparr>\<rparr>],
      ActivateFlowsRequest.request_origin = GY\<rparr>
     \<in> set (rpcs (activate_gy_redirect env0 client0 args0)) \<and>
   priorities_sent (activate_gy_redirect env0 client0 args0) = [999] \<and>
   priorities_sent (activate_gy_redirect env0 client0 (args0\<lparr>args.priority := 5\<rparr>)) = [999]"
  using activate_gy_redirect_request_shape
    [of "\<lparr>ActivateFlowsRequest.sid = ''IMSI12345'',
      ActivateFlowsRequest.ip_addr = ''120.12.1.9'',
      ActivateFlowsRequest.rule_ids = [],
      dynamic_rules =
        [\<lparr>PolicyRule.id = ''rule1'', PolicyRule.priority = 999,
          PolicyRule.hard_timeout = 0, flow_list = [],
          redirect = Some \<lparr>support = 1, address_type = 2,
                            server_address = ''http://about.sha.ddih.org/''\<rparr>\<rparr>],
      ActivateFlowsRequest.request_origin = GY\<rparr>" env0 client0 args0]
  by (simp add: rpcs_activate_gy_redirect activate_gy_redirect_request_def env0_def args0_def
        priorities_sent_def)

subsection \<open>Redirect priority against policy rule priority\<close>

lemma activate_dynamic_rule_raises:
  "activate_dynamic_rule_request env a = Inl e \<Longrightarrow>
     activate_dynamic_rule env client a = \<lparr>rpcs = [], stdout = [], raised = Some e\<rparr>"
  by (simp add: activate_dynamic_rule_def)

text \<open>
  C1, as the claim states it: the redirect priority exceeds every priority that
  \<^verbatim>\<open>activate_dynamic_rule\<close> can put on a GX rule. It does not: \<^verbatim>\<open>--priority 1000\<close> is
  sent unchanged, and 1000 is not below 999.
\<close>

theorem redirect_priority_counterexample:
  "priorities_sent (activate_dynamic_rule env0 client0 (args0\<lparr>args.priority := 1000\<rparr>))
     = [1000] \<and>
   priorities_sent (activate_gy_redirect env0 client0 args0) = [999] \<and>
   \<not> (1000 :: int) < 999"
  by (simp add: priorities_sent_def rpcs_activate_dynamic_rule rpcs_activate_gy_redirect
        activate_dynamic_rule_request_def activate_gy_redirect_request_def env0_def args0_def
        in_range_def)

text \<open>
  C1, amended. For one subscriber, \<^verbatim>\<open>activate_gy_redirect\<close> sends one request of origin
  GY (CHARGING) whose one rule has priority 999. \<^verbatim>\<open>activate_dynamic_rule\<close> sends one
  request of origin GX (POLICY) whose one rule has the caller's \<^verbatim>\<open>--priority\<close> unchanged,
  provided the priority and the hard timeout fit their message fields; when one does
  not, it raises \<^verbatim>\<open>ValueError\<close> and sends nothing. The redirect rule's priority exceeds
  the policy rule's exactly when the caller's priority is below 999.
\<close>

theorem redirect_priority_exceeds_iff:
  "to_pb env (args.imsi a) = Inr s \<Longrightarrow>
   convert_ipv4_str_to_ip_proto env (args.ipv4_dst a) = Inr d \<Longrightarrow>
   args.imsi b = args.imsi a \<Longrightarrow>
     (\<exists>red rrule.
        rpcs (activate_gy_redirect env client b) = [ActivateFlows_rpc red] \<and>
        ActivateFlowsRequest.sid red = s \<and>
        ActivateFlowsRequest.request_origin red = GY \<and>
        dynamic_rules red = [rrule] \<and>
        PolicyRule.priority rrule = 999 \<and>
        (if in_range (priority_field env) (args.priority a) \<and>
            in_range (hard_timeout_field env) (args.hard_timeout a)
         then
           (\<exists>pol prule.
              rpcs (activate_dynamic_rule env client a) = [ActivateFlows_rpc pol] \<and>
              ActivateFlowsRequest.sid pol = s \<and>
              ActivateFlowsRequest.request_origin pol = GX \<and>
              dynamic_rules pol = [prule] \<and>
              PolicyRule.priority prule = args.priority a \<and>
              (PolicyRule.priority prule < PolicyRule.priority rrule
                 \<longleftrightarrow> args.priority a < 999))
         else
           activate_dynamic_rule env client a =
             \<lparr>rpcs = [], stdout = [], raised = Some ValueError\<rparr>))"
proof -
  assume sid: "to_pb env (args.imsi a) = Inr s"
    and dst: "convert_ipv4_str_to_ip_proto env (args.ipv4_dst a) = Inr d"
    and same: "args.imsi b = args.imsi a"
  have red: "activate_gy_redirect_request env b =
      Inr \<lparr>ActivateFlowsRequest.sid = s,
           ActivateFlowsRequest.ip_addr = args.ipv4 b,
           ActivateFlowsRequest.rule_ids = [],
           dynamic_rules =
             [\<lparr>PolicyRule.id = args.rule_id b, PolicyRule.priority = 999,
               PolicyRule.hard_timeout = 0, flow_list = [],
               redirect = Some \<lparr>support = 1, address_type = 2,
                                 server_address = args.redirect_addr b\<rparr>\<rparr>],
           ActivateFlowsRequest.request_origin = GY\<rparr>"
    by (simp add: activate_gy_redirect_request_def same sid)
  show ?thesis
  proof (cases "in_range (priority_field env) (args.priority a) \<and>
                in_range (hard_timeout_field env) (args.hard_timeout a)")
    case True
    then have "activate_dynamic_rule_request env a =
      Inr \<lparr>ActivateFlowsRequest.sid = s,
           ActivateFlowsRequest.ip_addr = args.ipv4 a,
           ActivateFlowsRequest.rule_ids = [],
           dynamic_rules =
             [\<lparr>PolicyRule.id = args.rule_id a,
               PolicyRule.priority = args.priority a,
               PolicyRule.hard_timeout = args.hard_timeout a,
               flow_list =
                 [\<lparr>match = \<lparr>ip_src = None, ip_dst = Some d, direction = UPLINK\<rparr>\<rparr>,
                  \<lparr>match = \<lparr>ip_src = Some d, ip_dst = None, direction = DOWNLINK\<rparr>\<rparr>],
               redirect = None\<rparr>],
           ActivateFlowsRequest.request_origin = GX\<rparr>"
      by (simp add: activate_dynamic_rule_request_def sid dst)
    with True red show ?thesis
      by (simp add: rpcs_activate_dynamic_rule rpcs_activate_gy_redirect)
  next
    case False
    then have "activate_dynamic_rule_request env a = Inl ValueError"
      by (simp add: activate_dynamic_rule_request_def sid dst)
    then have "activate_dynamic_rule env client a =
        \<lparr>rpcs = [], stdout = [], raised = Some ValueError\<rparr>"
      by (rule activate_dynamic_rule_raises)
    with False red show ?thesis
      by (simp add: rpcs_activate_gy_redirect)
  qed
qed

theorem redirect_priority_exceeds_iff_witness:
  "rpcs (activate_gy_redirect env0 client0 args0) =
     [ActivateFlows_rpc
        \<lparr>ActivateFlowsRequest.sid = ''IMSI12345'',
         ActivateFlowsRequest.ip_addr = ''120.12.1.9'',
         ActivateFlowsRequest.rule_ids = [],
         dynamic_rules =
           [\<lparr>PolicyRule.id = ''rule1'', PolicyRule.priority = 999,
             PolicyRule.hard_timeout = 0, flow_list = [],
             redirect = Some \<lparr>support = 1, address_type = 2,
                               server_address = ''http://about.sha.ddih.org/''\<rparr>\<rparr>],
         ActivateFlowsRequest.request_origin = GY\<rparr>] \<and>
   rpcs (activate_dynamic_rule env0 client0 args0) =
     [ActivateFlows_rpc
        \<lparr>ActivateFlowsRequest.sid = ''IMSI12345'',
         ActivateFlowsRequest.ip_addr = ''120.12.1.9'',
         ActivateFlowsRequest.rule_ids = [],
         dynamic_rules =
           [\<lparr>PolicyRule.id = ''rule1'', PolicyRule.priority = 0,
             PolicyRule.hard_timeout = 0,
             flow_list =
               [\<lparr>match = \<lparr>ip_src = None, ip_dst = Some [], direction = UPLINK\<rparr>\<rparr>,
                \<lparr>match = \<lparr>ip_src = Some [], ip_dst = None, direction = DOWNLINK\<rparr>\<rparr>],
             redirect = None\<rparr>],
         ActivateFlowsRequest.request_origin = GX\<rparr>] \<and>
   (0 :: int) < 999 \<and>
   activate_dynamic_rule env0 client0 (args0\<lparr>args.priority := - 1\<rparr>) =
     \<lparr>rpcs = [], stdout = [], raised = Some ValueError\<rparr>"
proof -
  have red: "rpcs (activate_gy_redirect env0 client0 args0) =
     [ActivateFlows_rpc
        \<lparr>ActivateFlowsRequest.sid = ''IMSI12345'',
         ActivateFlowsRequest.ip_addr = ''120.12.1.9'',
         ActivateFlowsRequest.rule_ids = [],
         dynamic_rules =
           [\<lparr>PolicyRule.id = ''rule1'', PolicyRule.priority = 999,
             PolicyRule.hard_timeout = 0, flow_list = [],
             redirect = Some \<lparr>support = 1, address_type = 2,
                               server_address = ''http://about.sha.ddih.org/''\<rparr>\<rparr>],
         ActivateFlowsRequest.request_origin = GY\<rparr>]"
    by (simp add: rpcs_activate_gy_redirect activate_gy_redirect_request_def env0_def
          args0_def)
  have pol: "rpcs (activate_dynamic_rule env0 client0 args0) =
     [ActivateFlows_rpc
        \<lparr>ActivateFlowsRequest.sid = ''IMSI12345'',
         ActivateFlowsRequest.ip_addr = ''120.12.1.9'',
         ActivateFlowsRequest.rule_ids = [],
         dynamic_rules =
           [\<lparr>PolicyRule.id = ''rule1'', PolicyRule.priority = 0,
             PolicyRule.hard_timeout = 0,
             flow_list =
               [\<lparr>match = \<lparr>ip_src = None, ip_dst = Some [], direction = UPLINK\<rparr>\<rparr>,
                \<lparr>match = \<lparr>ip_src = Some [], ip_dst = None, direction = DOWNLINK\<rparr>\<rparr>],
             redirect = None\<rparr>],
         ActivateFlowsRequest.request_origin = GX\<rparr>]"
    by (simp add: rpcs_activate_dynamic_rule activate_dynamic_rule_request_def env0_def
          args0_def in_range_def)
  have sid: "to_pb env0 (args.imsi (args0\<lparr>args.priority := - 1\<rparr>)) = Inr ''IMSI12345''"
    by (simp add: env0_def args0_def)
  have dst: "convert_ipv4_str_to_ip_proto env0 (args.ipv4_dst (args0\<lparr>args.priority := - 1\<rparr>))
      = Inr []"
    by (simp add: env0_def args0_def)
  have same: "args.imsi args0 = args.imsi (args0\<lparr>args.priority := - 1\<rparr>)"
    by simp
  have unfit: "in_range (priority_field env0) (args.priority (args0\<lparr>args.priority := - 1\<rparr>))
      = False"
    by (simp add: env0_def in_range_def)
  from redirect_priority_exceeds_iff [OF sid dst same, of client0]
  have bad: "activate_dynamic_rule env0 client0 (args0\<lparr>args.priority := - 1\<rparr>) =
     \<lparr>rpcs = [], stdout = [], raised = Some ValueError\<rparr>"
    unfolding unfit by auto
  from red pol bad show ?thesis
    by simp
qed

subsection \<open>Deactivation leaves the other origin's records alone\<close>

text \<open>
  A record that is not of the request's subscriber and origin survives the handler:
  whatever is selected among such records is selected before and after.
\<close>

lemma remove_frame:
  assumes "\<And>r. K r \<Longrightarrow> \<not> (subscriber r = s \<and> origin r = orig)"
  shows "filter K (fst (remove store s rid orig)) = filter K store"
proof -
  have "filter K (filter (\<lambda>r. \<not> (subscriber r = s \<and> record_rule_id r = rid \<and> origin r = orig)) store)
        = filter K store"
    unfolding filter_filter by (rule filter_cong) (use assms in blast)+
  then show ?thesis
    unfolding remove_def fst_conv .
qed

lemma fold_remove_frame:
  assumes "\<And>r. K r \<Longrightarrow> \<not> (subscriber r = s \<and> origin r = orig)"
  shows "filter K (fold (\<lambda>rid st. fst (remove st s rid orig)) ids store) = filter K store"
proof (induction ids arbitrary: store)
  case Nil
  show ?case by simp
next
  case (Cons rid ids)
  have "filter K (fold (\<lambda>rid st. fst (remove st s rid orig)) (rid # ids) store)
        = filter K (fst (remove store s rid orig))"
    unfolding fold_simps by (rule Cons.IH)
  also have "\<dots> = filter K store"
    by (rule remove_frame [OF assms])
  finally show ?case .
qed

lemma remove_all_frame:
  assumes "\<And>r. K r \<Longrightarrow> \<not> (subscriber r = s \<and> origin r = orig)"
  shows "filter K (fst (remove_all store s orig)) = filter K store"
  unfolding remove_all_def fst_conv filter_filter
  by (rule filter_cong) (use assms in blast)+

lemma DeactivateFlows_handler_frame:
  assumes "\<And>r. K r \<Longrightarrow> \<not> (subscriber r = DeactivateFlowsRequest.sid req \<and>
                            origin r = DeactivateFlowsRequest.request_origin req)"
  shows "filter K (DeactivateFlows_handler store req) = filter K store"
proof (cases "DeactivateFlowsRequest.rule_ids req = []")
  case True
  then show ?thesis
    unfolding DeactivateFlows_handler_def using remove_all_frame [OF assms] by simp
next
  case False
  then show ?thesis
    unfolding DeactivateFlows_handler_def using fold_remove_frame [OF assms] by simp
qed

lemma deactivate_flows_origin:
  "DeactivateFlows_rpc req \<in> set (rpcs (deactivate_flows env client a)) \<Longrightarrow>
     DeactivateFlowsRequest.request_origin req = GX"
  by (auto simp: rpcs_deactivate_flows deactivate_flows_request_def split: sum.splits)

lemma deactivate_gy_flows_origin:
  "DeactivateFlows_rpc req \<in> set (rpcs (deactivate_gy_flows env client a)) \<Longrightarrow>
     DeactivateFlowsRequest.request_origin req = GY"
  by (auto simp: rpcs_deactivate_gy_flows deactivate_gy_flows_request_def split: sum.splits)

text \<open>
  C4. Every request \<^verbatim>\<open>deactivate_flows\<close> sends has origin GX and every request
  \<^verbatim>\<open>deactivate_gy_flows\<close> sends has origin GY; handling such a request leaves the records
  of the other origin exactly as they were, for every subscriber and whatever rule ids
  the request names.
\<close>

theorem deactivation_scoped_to_origin:
  "(DeactivateFlows_rpc req \<in> set (rpcs (deactivate_flows env client a)) \<longrightarrow>
      DeactivateFlowsRequest.request_origin req = GX \<and>
      filter (\<lambda>r. origin r = GY) (DeactivateFlows_handler store req) =
      filter (\<lambda>r. origin r = GY) store) \<and>
   (DeactivateFlows_rpc req \<in> set (rpcs (deactivate_gy_flows env client a)) \<longrightarrow>
      DeactivateFlowsRequest.request_origin req = GY \<and>
      filter (\<lambda>r. origin r = GX) (DeactivateFlows_handler store req) =
      filter (\<lambda>r. origin r = GX) store)"
proof (intro conjI impI)
  assume sent: "DeactivateFlows_rpc req \<in> set (rpcs (deactivate_flows env client a))"
  show gx: "DeactivateFlowsRequest.request_origin req = GX"
    by (rule deactivate_flows_origin [OF sent])
  show "filter (\<lambda>r. origin r = GY) (DeactivateFlows_handler store req) =
        filter (\<lambda>r. origin r = GY) store"
    by (rule DeactivateFlows_handler_frame) (simp add: gx)
next
  assume sent: "DeactivateFlows_rpc req \<in> set (rpcs (deactivate_gy_flows env client a))"
  show gy: "DeactivateFlowsRequest.request_origin req = GY"
    by (rule deactivate_gy_flows_origin [OF sent])
  show "filter (\<lambda>r. origin r = GX) (DeactivateFlows_handler store req) =
        filter (\<lambda>r. origin r = GX) store"
    by (rule DeactivateFlows_handler_frame) (simp add: gy)
qed

theorem deactivation_scoped_to_origin_witness:
  "DeactivateFlows_rpc
     \<lparr>DeactivateFlowsRequest.sid = ''IMSI12345'',
      DeactivateFlowsRequest.ip_addr = ''120.12.1.9'',
      DeactivateFlowsRequest.rule_ids = [],
      DeactivateFlowsRequest.request_origin = GX\<rparr>
     \<in> set (rpcs (deactivate_flows env0 client0 (args0\<lparr>args.rule_ids := None\<rparr>))) \<and>
   DeactivateFlows_handler store0
     \<lparr>DeactivateFlowsRequest.sid = ''IMSI12345'',
      DeactivateFlowsRequest.ip_addr = ''120.12.1.9'',
      DeactivateFlowsRequest.rule_ids = [],
      DeactivateFlowsRequest.request_origin = GX\<rparr> =
     [\<lparr>subscriber = ''IMSI12345'', record_rule_id = ''redirect'', origin = GY,
       content = ()\<rparr>] \<and>
   filter (\<lambda>r. origin r = GY)
     (DeactivateFlows_handler store0
        \<lparr>DeactivateFlowsRequest.sid = ''IMSI12345'',
         DeactivateFlowsRequest.ip_addr = ''120.12.1.9'',
         DeactivateFlowsRequest.rule_ids = [],
         DeactivateFlowsRequest.request_origin = GX\<rparr>) =
     filter (\<lambda>r. origin r = GY) store0"
  using deactivation_scoped_to_origin
    [of "\<lparr>DeactivateFlowsRequest.sid = ''IMSI12345'',
          DeactivateFlowsRequest.ip_addr = ''120.12.1.9'',
          DeactivateFlowsRequest.rule_ids = [],
          DeactivateFlowsRequest.request_origin = GX\<rparr>"
        env0 client0 "args0\<lparr>args.rule_ids := None\<rparr>" store0]
  by (simp add: rpcs_deactivate_flows deactivate_flows_request_def env0_def args0_def
        store0_def DeactivateFlows_handler_def remove_all_def)

subsection \<open>Deactivation without rule ids\<close>

text \<open>
  C3. With \<^verbatim>\<open>--rule_ids\<close> omitted and with \<^verbatim>\<open>--rule_ids\<close> given as the empty string,
  \<^verbatim>\<open>deactivate_flows\<close> and \<^verbatim>\<open>deactivate_gy_flows\<close> send the same request, one whose rule
  ids are the empty list; handling a request with no rule ids removes every record of
  the request's subscriber and origin and nothing else.
\<close>

theorem deactivate_empty_rule_ids:
  "args.rule_ids a = None \<or> args.rule_ids a = Some [] \<Longrightarrow>
   to_pb env (args.imsi a) = Inr s \<Longrightarrow>
     rpcs (deactivate_flows env client a) =
       [DeactivateFlows_rpc
          \<lparr>DeactivateFlowsRequest.sid = s, DeactivateFlowsRequest.ip_addr = args.ipv4 a,
           DeactivateFlowsRequest.rule_ids = [],
           DeactivateFlowsRequest.request_origin = GX\<rparr>] \<and>
     rpcs (deactivate_gy_flows env client a) =
       [DeactivateFlows_rpc
          \<lparr>DeactivateFlowsRequest.sid = s, DeactivateFlowsRequest.ip_addr = args.ipv4 a,
           DeactivateFlowsRequest.rule_ids = [],
           DeactivateFlowsRequest.request_origin = GY\<rparr>] \<and>
     DeactivateFlows_handler store
       \<lparr>DeactivateFlowsRequest.sid = s, DeactivateFlowsRequest.ip_addr = args.ipv4 a,
        DeactivateFlowsRequest.rule_ids = [],
        DeactivateFlowsRequest.request_origin = orig\<rparr> =
       filter (\<lambda>r. \<not> (subscriber r = s \<and> origin r = orig)) store"
proof -
  assume ids: "args.rule_ids a = None \<or> args.rule_ids a = Some []"
    and sid: "to_pb env (args.imsi a) = Inr s"
  from ids sid have gx: "deactivate_flows_request env a =
      Inr \<lparr>DeactivateFlowsRequest.sid = s, DeactivateFlowsRequest.ip_addr = args.ipv4 a,
           DeactivateFlowsRequest.rule_ids = [],
           DeactivateFlowsRequest.request_origin = GX\<rparr>"
    unfolding deactivate_flows_request_def by auto
  from ids sid have gy: "deactivate_gy_flows_request env a =
      Inr \<lparr>DeactivateFlowsRequest.sid = s, DeactivateFlowsRequest.ip_addr = args.ipv4 a,
           DeactivateFlowsRequest.rule_ids = [],
           DeactivateFlowsRequest.request_origin = GY\<rparr>"
    unfolding deactivate_gy_flows_request_def by auto
  show ?thesis
    by (simp add: rpcs_deactivate_flows rpcs_deactivate_gy_flows gx gy
          DeactivateFlows_handler_def remove_all_def)
qed

theorem deactivate_empty_rule_ids_witness:
  "rpcs (deactivate_flows env0 client0 (args0\<lparr>args.rule_ids := None\<rparr>)) =
     rpcs (deactivate_flows env0 client0 (args0\<lparr>args.rule_ids := Some []\<rparr>)) \<and>
   rpcs (deactivate_gy_flows env0 client0 (args0\<lparr>args.rule_ids := None\<rparr>)) =
     rpcs (deactivate_gy_flows env0 client0 (args0\<lparr>args.rule_ids := Some []\<rparr>)) \<and>
   rpcs (deactivate_gy_flows env0 client0 (args0\<lparr>args.rule_ids := Some []\<rparr>)) =
     [DeactivateFlows_rpc
        \<lparr>DeactivateFlowsRequest.sid = ''IMSI12345'',
         DeactivateFlowsRequest.ip_addr = ''120.12.1.9'',
         DeactivateFlowsRequest.rule_ids = [],
         DeactivateFlowsRequest.request_origin = GY\<rparr>] \<and>
   DeactivateFlows_handler store0
     \<lparr>DeactivateFlowsRequest.sid = ''IMSI12345'',
      DeactivateFlowsRequest.ip_addr = ''120.12.1.9'',
      DeactivateFlowsRequest.rule_ids = [],
      DeactivateFlowsRequest.request_origin = GY\<rparr> =
     [\<lparr>subscriber = ''IMSI12345'', record_rule_id = ''rule1'', origin = GX, content = ()\<rparr>]"
  using deactivate_empty_rule_ids
      [of "args0\<lparr>args.rule_ids := None\<rparr>" env0 "''IMSI12345''" client0 store0 GY]
    deactivate_empty_rule_ids
      [of "args0\<lparr>args.rule_ids := Some []\<rparr>" env0 "''IMSI12345''" client0 store0 GY]
  by (simp add: env0_def args0_def store0_def)

subsection \<open>Flow dumps that fail\<close>

text \<open>
  Once the configuration is loaded and names a bridge, \<^verbatim>\<open>display_raw_flows\<close> is decided by
  what the dump returns or raises; likewise \<^verbatim>\<open>_display_flows\<close> once the table
  assignments are fetched.
\<close>

lemma display_raw_flows_dump:
  assumes "load_service_config env ''pipelined'' = Inr cfg"
    and "cfg ''bridge_name'' = Some b"
  shows "display_raw_flows env a =
     (case get_flows_for_bridge env b (args.table_num a) of
        Inl e \<Rightarrow>
          (case e of
             CalledProcessError rc \<Rightarrow>
               \<lparr>rpcs = [],
                stdout = (if rc = EPERM then [''Need to run as root to dump flows''] else []),
                raised = None\<rparr>
           | _ \<Rightarrow> \<lparr>rpcs = [], stdout = [], raised = Some e\<rparr>)
      | Inr flows \<Rightarrow> \<lparr>rpcs = [], stdout = flows, raised = None\<rparr>)"
  using assms by (simp add: display_raw_flows_def)

lemma private_display_flows_dump:
  assumes "load_service_config env ''pipelined'' = Inr cfg"
    and "cfg ''bridge_name'' = Some b"
    and "GetAllTableAssignments client () = Inr resp"
  shows "private_display_flows env client apps' =
     (case get_annotated_flows_for_bridge env b
             (table_assignments_dict (table_assignments resp)) apps' of
        Inl e \<Rightarrow>
          (case e of
             CalledProcessError rc \<Rightarrow>
               \<lparr>rpcs = [GetAllTableAssignments_rpc],
                stdout = (if rc = EPERM then [''Need to run as root to dump flows''] else []),
                raised = None\<rparr>
           | _ \<Rightarrow> \<lparr>rpcs = [GetAllTableAssignments_rpc], stdout = [], raised = Some e\<rparr>)
      | Inr flows \<Rightarrow> \<lparr>rpcs = [GetAllTableAssignments_rpc], stdout = flows, raised = None\<rparr>)"
  using assms by (simp add: private_display_flows_def)

lemma display_flows_private:
  "display_flows env client a =
     private_display_flows env client (map_option (split CHR '','') (args.apps a))"
  by (simp add: display_flows_def split: option.splits)

text \<open>
  C5. When the dump fails with \<^verbatim>\<open>CalledProcessError\<close> of return code \<^verbatim>\<open>EPERM\<close>,
  \<^verbatim>\<open>display_raw_flows\<close> and \<^verbatim>\<open>display_flows\<close> (through \<^verbatim>\<open>_display_flows\<close>) print the one
  line "Need to run as root to dump flows" and raise nothing, whereas an empty flow set
  prints no line at all: the two outputs differ.
\<close>

theorem privilege_failure_reported:
  assumes "load_service_config env ''pipelined'' = Inr cfg"
    and "cfg ''bridge_name'' = Some b"
    and "GetAllTableAssignments client () = Inr resp"
  shows
    "(get_flows_for_bridge env b (args.table_num a) = Inl (CalledProcessError EPERM) \<longrightarrow>
        display_raw_flows env a =
          \<lparr>rpcs = [], stdout = [''Need to run as root to dump flows''], raised = None\<rparr>) \<and>
     (get_flows_for_bridge env b (args.table_num a) = Inr [] \<longrightarrow>
        display_raw_flows env a = \<lparr>rpcs = [], stdout = [], raised = None\<rparr>) \<and>
     (get_annotated_flows_for_bridge env b (table_assignments_dict (table_assignments resp))
          (map_option (split CHR '','') (args.apps a)) = Inl (CalledProcessError EPERM) \<longrightarrow>
        display_flows env client a =
          \<lparr>rpcs = [GetAllTableAssignments_rpc],
           stdout = [''Need to run as root to dump flows''], raised = None\<rparr>) \<and>
     (get_annotated_flows_for_bridge env b (table_assignments_dict (table_assignments resp))
          (map_option (split CHR '','') (args.apps a)) = Inr [] \<longrightarrow>
        display_flows env client a =
          \<lparr>rpcs = [GetAllTableAssignments_rpc], stdout = [], raised = None\<rparr>)"
  by (simp add: display_raw_flows_dump [OF assms(1,2)] display_flows_private
        private_display_flows_dump [OF assms])

theorem privilege_failure_reported_witness:
  "display_raw_flows (env_dump_fails EPERM) args0 =
     \<lparr>rpcs = [], stdout = [''Need to run as root to dump flows''], raised = None\<rparr> \<and>
   display_flows (env_dump_fails EPERM) client0 args0 =
     \<lparr>rpcs = [GetAllTableAssignments_rpc],
      stdout = [''Need to run as root to dump flows''], raised = None\<rparr> \<and>
   display_raw_flows env0 args0 = \<lparr>rpcs = [], stdout = [], raised = None\<rparr> \<and>
   display_flows env0 client0 args0 =
     \<lparr>rpcs = [GetAllTableAssignments_rpc], stdout = [], raised = None\<rparr>"
  using privilege_failure_reported
      [of "env_dump_fails EPERM" "[''bridge_name'' \<mapsto> ''gtp_br0'']" "''gtp_br0''" client0
          "\<lparr>table_assignments = assignments0\<rparr>" args0]
    privilege_failure_reported
      [of env0 "[''bridge_name'' \<mapsto> ''gtp_br0'']" "''gtp_br0''" client0
          "\<lparr>table_assignments = assignments0\<rparr>" args0]
  by (simp add: env_dump_fails_def env0_def client0_def)

text \<open>
  C10. When the dump fails with \<^verbatim>\<open>CalledProcessError\<close> of a return code other than
  \<^verbatim>\<open>EPERM\<close>, \<^verbatim>\<open>display_raw_flows\<close> and \<^verbatim>\<open>_display_flows\<close> print nothing and raise
  nothing, which is also their outcome on an empty flow set; among the
  \<^verbatim>\<open>CalledProcessError\<close> failures a line is printed for \<^verbatim>\<open>EPERM\<close> only; and an exception
  that is not a \<^verbatim>\<open>CalledProcessError\<close> leaves the function.
\<close>

theorem other_dump_failures_silent:
  assumes "load_service_config env ''pipelined'' = Inr cfg"
    and "cfg ''bridge_name'' = Some b"
    and "GetAllTableAssignments client () = Inr resp"
  shows
    "(get_flows_for_bridge env b (args.table_num a) = Inl (CalledProcessError rc) \<longrightarrow>
        (rc \<noteq> EPERM \<longrightarrow>
           display_raw_flows env a = \<lparr>rpcs = [], stdout = [], raised = None\<rparr>) \<and>
        (stdout (display_raw_flows env a) \<noteq> [] \<longleftrightarrow> rc = EPERM)) \<and>
     (get_flows_for_bridge env b (args.table_num a) = Inr [] \<longrightarrow>
        display_raw_flows env a = \<lparr>rpcs = [], stdout = [], raised = None\<rparr>) \<and>
     (get_flows_for_bridge env b (args.table_num a) = Inl e \<longrightarrow>
        (\<forall>n. e \<noteq> CalledProcessError n) \<longrightarrow>
        raised (display_raw_flows env a) = Some e) \<and>
     (get_annotated_flows_for_bridge env b (table_assignments_dict (table_assignments resp))
          apps' = Inl (CalledProcessError rc) \<longrightarrow>
        (rc \<noteq> EPERM \<longrightarrow>
           private_display_flows env client apps' =
             \<lparr>rpcs = [GetAllTableAssignments_rpc], stdout = [], raised = None\<rparr>) \<and>
        (stdout (private_display_flows env client apps') \<noteq> [] \<longleftrightarrow> rc = EPERM)) \<and>
     (get_annotated_flows_for_bridge env b (table_assignments_dict (table_assignments resp))
          apps' = Inr [] \<longrightarrow>
        private_display_flows env client apps' =
          \<lparr>rpcs = [GetAllTableAssignments_rpc], stdout = [], raised = None\<rparr>) \<and>
     (get_annotated_flows_for_bridge env b (table_assignments_dict (table_assignments resp))
          apps' = Inl e \<longrightarrow>
        (\<forall>n. e \<noteq> CalledProcessError n) \<longrightarrow>
        raised (private_display_flows env client apps') = Some e)"
proof -
  note raw = display_raw_flows_dump [OF assms(1,2), of a]
  note ann = private_display_flows_dump [OF assms, of apps']
  have other: "(case e of CalledProcessError n \<Rightarrow> f n | _ \<Rightarrow> g) = g"
    if "\<forall>n. e \<noteq> CalledProcessError n" for f :: "int \<Rightarrow> (('a, 'b) outcome)" and g
    using that by (cases e) simp_all
  show ?thesis
    by (intro conjI impI) (simp_all add: raw ann other)
qed

theorem other_dump_failures_silent_witness:
  "display_raw_flows (env_dump_fails 2) args0 = \<lparr>rpcs = [], stdout = [], raised = None\<rparr> \<and>
   display_raw_flows (env_dump_fails 2) args0 = display_raw_flows env0 args0 \<and>
   private_display_flows (env_dump_fails 2) client0 None =
     \<lparr>rpcs = [GetAllTableAssignments_rpc], stdout = [], raised = None\<rparr> \<and>
   private_display_flows (env_dump_fails 2) client0 None =
     private_display_flows env0 client0 None \<and>
   raised (display_raw_flows env_dump_raises args0) = Some (OtherError ''FileNotFoundError'') \<and>
   raised (private_display_flows env_dump_raises client0 None) =
     Some (OtherError ''FileNotFoundError'')"
  using other_dump_failures_silent
      [of "env_dump_fails 2" "[''bridge_name'' \<mapsto> ''gtp_br0'']" "''gtp_br0''" client0
          "\<lparr>table_assignments = assignments0\<rparr>" args0 2 "OtherError ''x''" None]
    other_dump_failures_silent
      [of env0 "[''bridge_name'' \<mapsto> ''gtp_br0'']" "''gtp_br0''" client0
          "\<lparr>table_assignments = assignments0\<rparr>" args0 2 "OtherError ''x''" None]
    other_dump_failures_silent
      [of env_dump_raises "[''bridge_name'' \<mapsto> ''gtp_br0'']" "''gtp_br0''" client0
          "\<lparr>table_assignments = assignments0\<rparr>" args0 2
          "OtherError ''FileNotFoundError''" None]
  by (simp add: env_dump_fails_def env_dump_raises_def env0_def client0_def EPERM_def)

subsection \<open>Quota updates\<close>

lemma update_quota_raises:
  "update_quota_request env a = Inl e \<Longrightarrow>
     update_quota env client a = \<lparr>rpcs = [], stdout = [], raised = Some e\<rparr>"
  by (simp add: update_quota_def)

text \<open>The handler on a request of one update.\<close>

lemma UpdateSubscriberQuotaState_handler_single:
  "UpdateSubscriberQuotaState_handler gate \<lparr>updates = [u]\<rparr> =
     (case quota_state_of (SubscriberQuotaUpdate.update_type u) of
        None \<Rightarrow> gate
      | Some q \<Rightarrow> UpdateQuotaState gate (SubscriberQuotaUpdate.sid u) (mac_addr u) q)"
  by (simp add: UpdateSubscriberQuotaState_handler_def)

text \<open>
  C7, as the claim states it: the update carries an update type from \<open>{0, 1, 2}\<close>. It
  need not: the parser takes any integer, and \<^verbatim>\<open>update_quota\<close> sends 3 as it is.
\<close>

theorem update_quota_type_counterexample:
  "rpcs (update_quota env0 client0 (args0\<lparr>args.update_type := 3\<rparr>)) =
     [UpdateSubscriberQuotaState_rpc
        \<lparr>updates =
           [\<lparr>SubscriberQuotaUpdate.sid = ''IMSI12345'', mac_addr = ''5e:cc:cc:b1:49:ff'',
             SubscriberQuotaUpdate.update_type = 3\<rparr>]\<rparr>] \<and>
   (3 :: int) \<notin> {0, 1, 2} \<and>
   quota_state_of 3 = None"
  by (simp add: rpcs_update_quota update_quota_request_def env0_def args0_def
        quota_state_of_def in_range_def)

text \<open>
  C7, amended. When the caller's update type fits the message field, \<^verbatim>\<open>update_quota\<close>
  sends one request of one update that carries the subscriber, the MAC address and the
  update type unchanged, whether or not it is 0, 1 or 2; when it does not fit,
  \<^verbatim>\<open>update_quota\<close> raises \<^verbatim>\<open>ValueError\<close> and sends nothing. The update type names a
  quota state exactly when it is 0, 1 or 2. Handling the request sent with update type
  2 (TERMINATE) removes the subscriber's gating rule and leaves every other
  subscriber's as it was, whereas with update type 0 or 1 the subscriber has a gating
  rule afterwards, with the new content.
\<close>

theorem update_quota_carries_type:
  "to_pb env (args.imsi a) = Inr s \<Longrightarrow>
     (if in_range (update_type_field env) (args.update_type a) then
        (\<exists>req.
           rpcs (update_quota env client a) = [UpdateSubscriberQuotaState_rpc req] \<and>
           updates req =
             [\<lparr>SubscriberQuotaUpdate.sid = s, mac_addr = args.mac a,
               SubscriberQuotaUpdate.update_type = args.update_type a\<rparr>] \<and>
           (args.update_type a = 2 \<longrightarrow>
              UpdateSubscriberQuotaState_handler gate req s = None \<and>
              (\<forall>s'. s' \<noteq> s \<longrightarrow> UpdateSubscriberQuotaState_handler gate req s' = gate s')) \<and>
           (args.update_type a = 0 \<longrightarrow>
              UpdateSubscriberQuotaState_handler gate req s = Some (args.mac a, VALID)) \<and>
           (args.update_type a = 1 \<longrightarrow>
              UpdateSubscriberQuotaState_handler gate req s = Some (args.mac a, EXHAUSTED)))
      else
        update_quota env client a = \<lparr>rpcs = [], stdout = [], raised = Some ValueError\<rparr>) \<and>
     (quota_state_of (args.update_type a) \<noteq> None \<longleftrightarrow> args.update_type a \<in> {0, 1, 2})"
proof (intro conjI)
  assume sid: "to_pb env (args.imsi a) = Inr s"
  let ?req = "\<lparr>updates =
     [\<lparr>SubscriberQuotaUpdate.sid = s, mac_addr = args.mac a,
       SubscriberQuotaUpdate.update_type = args.update_type a\<rparr>]\<rparr>"
  have handled: "UpdateSubscriberQuotaState_handler gate ?req =
      (case quota_state_of (args.update_type a) of
         None \<Rightarrow> gate
       | Some q \<Rightarrow> UpdateQuotaState gate s (args.mac a) q)"
    by (simp add: UpdateSubscriberQuotaState_handler_single split: option.splits)
  show "if in_range (update_type_field env) (args.update_type a) then
        (\<exists>req.
           rpcs (update_quota env client a) = [UpdateSubscriberQuotaState_rpc req] \<and>
           updates req =
             [\<lparr>SubscriberQuotaUpdate.sid = s, mac_addr = args.mac a,
               SubscriberQuotaUpdate.update_type = args.update_type a\<rparr>] \<and>
           (args.update_type a = 2 \<longrightarrow>
              UpdateSubscriberQuotaState_handler gate req s = None \<and>
              (\<forall>s'. s' \<noteq> s \<longrightarrow> UpdateSubscriberQuotaState_handler gate req s' = gate s')) \<and>
           (args.update_type a = 0 \<longrightarrow>
              UpdateSubscriberQuotaState_handler gate req s = Some (args.mac a, VALID)) \<and>
           (args.update_type a = 1 \<longrightarrow>
              UpdateSubscriberQuotaState_handler gate req s = Some (args.mac a, EXHAUSTED)))
      else
        update_quota env client a = \<lparr>rpcs = [], stdout = [], raised = Some ValueError\<rparr>"
  proof (cases "in_range (update_type_field env) (args.update_type a)")
    case True
    then have sent: "rpcs (update_quota env client a) = [UpdateSubscriberQuotaState_rpc ?req]"
      by (simp add: rpcs_update_quota update_quota_request_def sid)
    have "(args.update_type a = 2 \<longrightarrow>
              UpdateSubscriberQuotaState_handler gate ?req s = None \<and>
              (\<forall>s'. s' \<noteq> s \<longrightarrow> UpdateSubscriberQuotaState_handler gate ?req s' = gate s')) \<and>
           (args.update_type a = 0 \<longrightarrow>
              UpdateSubscriberQuotaState_handler gate ?req s = Some (args.mac a, VALID)) \<and>
           (args.update_type a = 1 \<longrightarrow>
              UpdateSubscriberQuotaState_handler gate ?req s = Some (args.mac a, EXHAUSTED))"
      unfolding handled by (simp add: quota_state_of_def UpdateQuotaState_def)
    with sent have "rpcs (update_quota env client a) = [UpdateSubscriberQuotaState_rpc ?req] \<and>
           updates ?req =
             [\<lparr>SubscriberQuotaUpdate.sid = s, mac_addr = args.mac a,
               SubscriberQuotaUpdate.update_type = args.update_type a\<rparr>] \<and>
           (args.update_type a = 2 \<longrightarrow>
              UpdateSubscriberQuotaState_handler gate ?req s = None \<and>
              (\<forall>s'. s' \<noteq> s \<longrightarrow> UpdateSubscriberQuotaState_handler gate ?req s' = gate s')) \<and>
           (args.update_type a = 0 \<longrightarrow>
              UpdateSubscriberQuotaState_handler gate ?req s = Some (args.mac a, VALID)) \<and>
           (args.update_type a = 1 \<longrightarrow>
              UpdateSubscriberQuotaState_handler gate ?req s = Some (args.mac a, EXHAUSTED))"
      by simp
    then have "\<exists>req.
           rpcs (update_quota env client a) = [UpdateSubscriberQuotaState_rpc req] \<and>
           updates req =
             [\<lparr>SubscriberQuotaUpdate.sid = s, mac_addr = args.mac a,
               SubscriberQuotaUpdate.update_type = args.update_type a\<rparr>] \<and>
           (args.update_type a = 2 \<longrightarrow>
              UpdateSubscriberQuotaState_handler gate req s = None \<and>
              (\<forall>s'. s' \<noteq> s \<longrightarrow> UpdateSubscriberQuotaState_handler gate req s' = gate s')) \<and>
           (args.update_type a = 0 \<longrightarrow>
              UpdateSubscriberQuotaState_handler gate req s = Some (args.mac a, VALID)) \<and>
           (args.update_type a = 1 \<longrightarrow>
              UpdateSubscriberQuotaState_handler gate req s = Some (args.mac a, EXHAUSTED))"
      by (rule exI)
    with True show ?thesis by simp
  next
    case False
    then have "update_quota_request env a = Inl ValueError"
      by (simp add: update_quota_request_def sid)
    then have "update_quota env client a = \<lparr>rpcs = [], stdout = [], raised = Some ValueError\<rparr>"
      by (rule update_quota_raises)
    with False show ?thesis by simp
  qed
  show "quota_state_of (args.update_type a) \<noteq> None \<longleftrightarrow> args.update_type a \<in> {0, 1, 2}"
    by (simp add: quota_state_of_def)
qed

theorem update_quota_carries_type_witness:
  "rpcs (update_quota env0 client0 (args0\<lparr>args.update_type := 2\<rparr>)) =
     [UpdateSubscriberQuotaState_rpc
        \<lparr>updates =
           [\<lparr>SubscriberQuotaUpdate.sid = ''IMSI12345'', mac_addr = ''5e:cc:cc:b1:49:ff'',
             SubscriberQuotaUpdate.update_type = 2\<rparr>]\<rparr>] \<and>
   UpdateSubscriberQuotaState_handler
     [''IMSI12345'' \<mapsto> (''5e:cc:cc:b1:49:ff'', EXHAUSTED)]
     \<lparr>updates =
        [\<lparr>SubscriberQuotaUpdate.sid = ''IMSI12345'', mac_addr = ''5e:cc:cc:b1:49:ff'',
          SubscriberQuotaUpdate.update_type = 2\<rparr>]\<rparr>
     ''IMSI12345'' = None \<and>
   UpdateSubscriberQuotaState_handler
     [''IMSI12345'' \<mapsto> (''5e:cc:cc:b1:49:ff'', EXHAUSTED)]
     \<lparr>updates =
        [\<lparr>SubscriberQuotaUpdate.sid = ''IMSI12345'', mac_addr = ''5e:cc:cc:b1:49:ff'',
          SubscriberQuotaUpdate.update_type = 0\<rparr>]\<rparr>
     ''IMSI12345'' = Some (''5e:cc:cc:b1:49:ff'', VALID) \<and>
   update_quota env0 client0 (args0\<lparr>args.update_type := 2 ^ 31\<rparr>) =
     \<lparr>rpcs = [], stdout = [], raised = Some ValueError\<rparr>"
proof -
  let ?gate = "[''IMSI12345'' \<mapsto> (''5e:cc:cc:b1:49:ff'', EXHAUSTED)]"
  have sid: "to_pb env0 (args.imsi (args0\<lparr>args.update_type := n\<rparr>)) = Inr ''IMSI12345''" for n
    by (simp add: env0_def args0_def)
  have fit: "in_range (update_type_field env0) (args.update_type (args0\<lparr>args.update_type := 2\<rparr>))
      = True"
    by (simp add: env0_def in_range_def)
  have unfit:
    "in_range (update_type_field env0) (args.update_type (args0\<lparr>args.update_type := 2 ^ 31\<rparr>))
      = False"
    by (simp add: env0_def in_range_def)
  have sent: "rpcs (update_quota env0 client0 (args0\<lparr>args.update_type := 2\<rparr>)) =
     [UpdateSubscriberQuotaState_rpc
        \<lparr>updates =
           [\<lparr>SubscriberQuotaUpdate.sid = ''IMSI12345'', mac_addr = ''5e:cc:cc:b1:49:ff'',
             SubscriberQuotaUpdate.update_type = 2\<rparr>]\<rparr>]"
    by (simp add: rpcs_update_quota update_quota_request_def env0_def args0_def in_range_def)
  from update_quota_carries_type [OF sid, of 2 client0 ?gate]
  have "\<exists>req. rpcs (update_quota env0 client0 (args0\<lparr>args.update_type := 2\<rparr>)) =
            [UpdateSubscriberQuotaState_rpc req] \<and>
          UpdateSubscriberQuotaState_handler ?gate req ''IMSI12345'' = None"
    unfolding fit by auto
  with sent have gone: "UpdateSubscriberQuotaState_handler ?gate
     \<lparr>updates =
        [\<lparr>SubscriberQuotaUpdate.sid = ''IMSI12345'', mac_addr = ''5e:cc:cc:b1:49:ff'',
          SubscriberQuotaUpdate.update_type = 2\<rparr>]\<rparr>
     ''IMSI12345'' = None"
    by auto
  have kept: "UpdateSubscriberQuotaState_handler ?gate
     \<lparr>updates =
        [\<lparr>SubscriberQuotaUpdate.sid = ''IMSI12345'', mac_addr = ''5e:cc:cc:b1:49:ff'',
          SubscriberQuotaUpdate.update_type = 0\<rparr>]\<rparr>
     ''IMSI12345'' = Some (''5e:cc:cc:b1:49:ff'', VALID)"
    by (simp add: UpdateSubscriberQuotaState_handler_single quota_state_of_def
          UpdateQuotaState_def)
  from update_quota_carries_type [OF sid, of "2 ^ 31" client0 ?gate]
  have bad: "update_quota env0 client0 (args0\<lparr>args.update_type := 2 ^ 31\<rparr>) =
     \<lparr>rpcs = [], stdout = [], raised = Some ValueError\<rparr>"
    unfolding unfit by auto
  from sent gone kept bad show ?thesis
    by simp
qed

subsection \<open>The table-assignment listing\<close>

text \<open>
  C8, as the claim states it: given a filter, only the assignments whose application
  name is in the filter set are listed. Not for the empty filter string: its filter set
  holds the empty name alone, yet \<^verbatim>\<open>--apps ''\<close> lists every assignment.
\<close>

theorem table_assignment_filter_counterexample:
  "stdout (get_table_assignment client0 (args0\<lparr>apps := Some []\<rparr>)) =
     [''App                      Main Table          Scratch Tables           '',
      ''----------------------------------------------------------------------'',
      ''ue_mac                   1                   []                       '',
      ''enforcement              13                  [21, 22]                 ''] \<and>
   ''ue_mac'' \<notin> set (split CHR '','' []) \<and>
   ''enforcement'' \<notin> set (split CHR '','' [])"
  by code_simp

text \<open>
  C8, amended. \<^verbatim>\<open>get_table_assignment\<close> issues the one read
  \<^verbatim>\<open>GetAllTableAssignments\<close> and nothing else. It prints the two header lines and then
  one row per listed assignment, made of the application name, the main table and the
  scratch tables, in the order of the snapshot. With \<^verbatim>\<open>--apps\<close> omitted or empty every
  assignment is listed; with a non-empty \<^verbatim>\<open>--apps\<close> exactly the assignments whose
  application name is one of its comma-separated pieces.
\<close>

theorem table_assignment_listing:
  "GetAllTableAssignments client () = Inr resp \<Longrightarrow>
     rpcs (get_table_assignment client a) = [GetAllTableAssignments_rpc] \<and>
     raised (get_table_assignment client a) = None \<and>
     stdout (get_table_assignment client a) =
       table_template ''App'' ''Main Table'' ''Scratch Tables''
       # replicate 70 CHR ''-''
       # map (\<lambda>ta. table_template (app_name ta)
                      (str_nat (TableAssignment.main_table ta))
                      (str_list (TableAssignment.scratch_tables ta)))
           (if args.apps a = None \<or> args.apps a = Some []
            then table_assignments resp
            else filter (\<lambda>ta. \<exists>s. args.apps a = Some s \<and> app_name ta \<in> set (split CHR '','' s))
                   (table_assignments resp))"
  by (cases "args.apps a") (auto simp: get_table_assignment_def Let_def)

theorem table_assignment_listing_witness:
  "stdout (get_table_assignment client0 (args0\<lparr>apps := Some ''enforcement,foo''\<rparr>)) =
     [''App                      Main Table          Scratch Tables           '',
      ''----------------------------------------------------------------------'',
      ''enforcement              13                  [21, 22]                 ''] \<and>
   rpcs (get_table_assignment client0 (args0\<lparr>apps := Some ''enforcement,foo''\<rparr>)) =
     [GetAllTableAssignments_rpc]"
proof -
  have fetched: "GetAllTableAssignments client0 () = Inr \<lparr>table_assignments = assignments0\<rparr>"
    by (simp add: client0_def)
  have listed:
    "stdout (get_table_assignment client0 (args0\<lparr>apps := Some ''enforcement,foo''\<rparr>)) =
       [''App                      Main Table          Scratch Tables           '',
        ''----------------------------------------------------------------------'',
        ''enforcement              13                  [21, 22]                 '']"
    by code_simp
  from table_assignment_listing [OF fetched, of "args0\<lparr>apps := Some ''enforcement,foo''\<rparr>"]
  have "rpcs (get_table_assignment client0 (args0\<lparr>apps := Some ''enforcement,foo''\<rparr>)) =
          [GetAllTableAssignments_rpc]"
    by (rule conjunct1)
  with listed show ?thesis
    by (rule conjI)
qed

section \<open>Properties of the control plane as specified\<close>

subsection \<open>Table assignments stay disjoint\<close>

lemma collides_iff: "collides ta tb \<longleftrightarrow> set (tables_of ta) \<inter> set (tables_of tb) \<noteq> {}"
  by (auto simp: collides_def list_ex_iff)

text \<open>
  A successful registration either finds the application or appends a fresh,
  collision-free assignment with the tables of the layout.
\<close>

lemma register_Inr:
  assumes "register layout st app = Inr (st', ta)"
  shows "(st' = st \<and> ta \<in> set st \<and> app_name ta = app) \<or>
         (st' = st @ [ta] \<and> app \<notin> app_name ` set st \<and> app_name ta = app \<and>
          tables_of ta = fst (layout app) # snd (layout app) \<and>
          (\<forall>x \<in> set st. set (tables_of ta) \<inter> set (tables_of x) = {}))"
proof (cases "find (\<lambda>t. app_name t = app) st")
  case None
  then have fresh: "app \<notin> app_name ` set st"
    by (auto simp: find_None_iff)
  let ?ta = "\<lparr>app_name = app, TableAssignment.main_table = fst (layout app),
              TableAssignment.scratch_tables = snd (layout app)\<rparr>"
  from None assms have free: "\<not> list_ex (collides ?ta) st"
    and st': "st' = st @ [?ta]" and ta: "ta = ?ta"
    by (auto simp: register_def Let_def split: if_splits)
  have tables: "tables_of ?ta = fst (layout app) # snd (layout app)"
    by (simp add: tables_of_def)
  from free have "\<forall>x \<in> set st. set (tables_of ?ta) \<inter> set (tables_of x) = {}"
    by (simp add: list_ex_iff collides_iff)
  with tables st' ta fresh show ?thesis
    by simp
next
  case (Some t)
  then have "t \<in> set st" "app_name t = app"
    by (auto simp: find_Some_iff)
  with Some assms show ?thesis
    by (auto simp: register_def)
qed

lemma register_preserves:
  assumes inv: "disjoint_assignments st"
    and reg: "register layout st app = Inr (st', ta)"
  shows "disjoint_assignments st'"
proof -
  from register_Inr [OF reg] show ?thesis
  proof
    assume "st' = st \<and> ta \<in> set st \<and> app_name ta = app"
    with inv show ?thesis by simp
  next
    assume new: "st' = st @ [ta] \<and> app \<notin> app_name ` set st \<and> app_name ta = app \<and>
          tables_of ta = fst (layout app) # snd (layout app) \<and>
          (\<forall>x \<in> set st. set (tables_of ta) \<inter> set (tables_of x) = {})"
    then have names: "distinct (map app_name st')"
      using inv by (auto simp: disjoint_assignments_def)
    have "set (tables_of x) \<inter> set (tables_of y) = {}"
      if "x \<in> set st'" "y \<in> set st'" "app_name x \<noteq> app_name y" for x y
    proof -
      from that new consider "x \<in> set st" "y \<in> set st" | "x = ta" "y \<in> set st"
        | "x \<in> set st" "y = ta"
        by auto
      then show ?thesis
      proof cases
        case 1
        with inv that(3) show ?thesis by (simp add: disjoint_assignments_def)
      next
        case 2
        with new show ?thesis by blast
      next
        case 3
        with new show ?thesis by blast
      qed
    qed
    with names show ?thesis
      by (simp add: disjoint_assignments_def)
  qed
qed

lemma startup_preserves:
  "disjoint_assignments st \<Longrightarrow> startup layout names st = Inr st' \<Longrightarrow> disjoint_assignments st'"
proof (induction names arbitrary: st)
  case Nil
  then show ?case by simp
next
  case (Cons app rest)
  from Cons.prems(2) obtain st1 ta where
    reg: "register layout st app = Inr (st1, ta)" and run: "startup layout rest st1 = Inr st'"
    by (auto split: sum.splits)
  from register_preserves [OF Cons.prems(1) reg] run show ?case
    by (rule Cons.IH)
qed

lemma register_conflict:
  assumes "app \<notin> app_name ` set st"
    and "\<exists>x \<in> set st. set (tables_of x) \<inter> ({fst (layout app)} \<union> set (snd (layout app))) \<noteq> {}"
  shows "register layout st app = Inl TableSpaceConflict"
proof -
  from assms(1) have none: "find (\<lambda>t. app_name t = app) st = None"
    by (auto simp: find_None_iff)
  from assms(2) have "list_ex (collides \<lparr>app_name = app,
          TableAssignment.main_table = fst (layout app),
          TableAssignment.scratch_tables = snd (layout app)\<rparr>) st"
    by (auto simp: list_ex_iff collides_iff tables_of_def)
  with none show ?thesis
    by (simp add: register_def)
qed

text \<open>
  Registration keeps what is registered, registers the application, and gives every
  assignment the tables the layout has for its application.
\<close>

lemma register_follows_layout:
  assumes reg: "register layout st app = Inr (st', ta)"
    and lay: "\<forall>t \<in> set st. tables_of t = fst (layout (app_name t)) # snd (layout (app_name t))"
  shows "(\<forall>t \<in> set st'. tables_of t = fst (layout (app_name t)) # snd (layout (app_name t))) \<and>
         app \<in> app_name ` set st' \<and> app_name ` set st \<subseteq> app_name ` set st'"
  using register_Inr [OF reg] lay by auto

lemma startup_follows_layout:
  "startup layout names st0 = Inr st \<Longrightarrow>
   \<forall>t \<in> set st0. tables_of t = fst (layout (app_name t)) # snd (layout (app_name t)) \<Longrightarrow>
     (\<forall>t \<in> set st. tables_of t = fst (layout (app_name t)) # snd (layout (app_name t))) \<and>
     set names \<subseteq> app_name ` set st \<and> app_name ` set st0 \<subseteq> app_name ` set st"
proof (induction names arbitrary: st0)
  case Nil
  then show ?case by simp
next
  case (Cons app rest)
  from Cons.prems(1) obtain st1 ta where
    reg: "register layout st0 app = Inr (st1, ta)" and run: "startup layout rest st1 = Inr st"
    by (auto split: sum.splits)
  note step = register_follows_layout [OF reg Cons.prems(2)]
  from step have lay1:
    "\<forall>t \<in> set st1. tables_of t = fst (layout (app_name t)) # snd (layout (app_name t))"
    by (rule conjunct1)
  from Cons.IH [OF run lay1] have lay:
    "\<forall>t \<in> set st. tables_of t = fst (layout (app_name t)) # snd (layout (app_name t))"
    and rest: "set rest \<subseteq> app_name ` set st"
    and grown: "app_name ` set st1 \<subseteq> app_name ` set st"
    by simp_all
  from step have here: "app \<in> app_name ` set st1"
    and before: "app_name ` set st0 \<subseteq> app_name ` set st1"
    by simp_all
  from rest grown here have "set (app # rest) \<subseteq> app_name ` set st"
    by auto
  moreover from grown before have "app_name ` set st0 \<subseteq> app_name ` set st"
    by blast
  ultimately show ?case
    using lay by blast
qed

text \<open>Registering a registered application returns its assignment and changes nothing.\<close>

lemma register_registered:
  assumes "app \<in> app_name ` set st"
  shows "\<exists>ta. register layout st app = Inr (st, ta) \<and> ta \<in> set st \<and> app_name ta = app"
proof (cases "find (\<lambda>t. app_name t = app) st")
  case None
  with assms show ?thesis
    by (auto simp: find_None_iff)
next
  case (Some t)
  then have "t \<in> set st" "app_name t = app"
    by (auto simp: find_Some_iff)
  with Some show ?thesis
    by (simp add: register_def)
qed

text \<open>
  C6. Startup decides about conflicts. When the layout makes two configured
  applications overlap in a main or scratch table, startup ends with the fatal
  \<^verbatim>\<open>TableSpaceConflict\<close>. When startup succeeds, its assignments hold one assignment per
  application and pairwise disjoint main and scratch tables, and at run time
  registering any configured application returns its assignment, with the tables of the
  layout, from the unchanged assignments: no conflict arises. Beyond that, every
  successful registration keeps the assignments disjoint, and an unregistered
  application whose tables overlap a registered one's is refused with
  \<^verbatim>\<open>TableSpaceConflict\<close>, so no state with overlapping tables is ever reached.
\<close>

theorem table_assignments_disjoint:
  "(startup layout names [] = Inr st \<longrightarrow>
      disjoint_assignments st \<and>
      (\<forall>app \<in> set names.
         \<exists>ta. register layout st app = Inr (st, ta) \<and> ta \<in> set st \<and> app_name ta = app \<and>
              tables_of ta = fst (layout app) # snd (layout app))) \<and>
   ((\<exists>x \<in> set names. \<exists>y \<in> set names.
       x \<noteq> y \<and>
       set (fst (layout x) # snd (layout x)) \<inter> set (fst (layout y) # snd (layout y)) \<noteq> {}) \<longrightarrow>
      startup layout names [] = Inl TableSpaceConflict) \<and>
   (disjoint_assignments st \<longrightarrow> register layout st app = Inr (st', ta) \<longrightarrow>
      disjoint_assignments st' \<and> ta \<in> set st' \<and> app_name ta = app) \<and>
   (app \<notin> app_name ` set st \<longrightarrow>
    (\<exists>x \<in> set st.
       set (tables_of x) \<inter> ({fst (layout app)} \<union> set (snd (layout app))) \<noteq> {}) \<longrightarrow>
      register layout st app = Inl TableSpaceConflict \<and>
      startup layout (app # rest) st = Inl TableSpaceConflict)"
proof -
  have started: "disjoint_assignments s \<and>
      (\<forall>app \<in> set names.
         \<exists>ta. register layout s app = Inr (s, ta) \<and> ta \<in> set s \<and> app_name ta = app \<and>
              tables_of ta = fst (layout app) # snd (layout app))"
    if run: "startup layout names [] = Inr s" for s
  proof
    have "disjoint_assignments []"
      by (simp add: disjoint_assignments_def)
    then show "disjoint_assignments s"
      using run by (rule startup_preserves)
    from startup_follows_layout [OF run]
    have lay: "\<forall>t \<in> set s. tables_of t = fst (layout (app_name t)) # snd (layout (app_name t))"
      and known: "set names \<subseteq> app_name ` set s"
      by simp_all
    show "\<forall>app \<in> set names.
         \<exists>ta. register layout s app = Inr (s, ta) \<and> ta \<in> set s \<and> app_name ta = app \<and>
              tables_of ta = fst (layout app) # snd (layout app)"
    proof
      fix app assume "app \<in> set names"
      with known have "app \<in> app_name ` set s" by blast
      from register_registered [OF this, of layout] obtain ta where
        "register layout s app = Inr (s, ta)" "ta \<in> set s" "app_name ta = app"
        by blast
      with lay show "\<exists>ta. register layout s app = Inr (s, ta) \<and> ta \<in> set s \<and>
          app_name ta = app \<and> tables_of ta = fst (layout app) # snd (layout app)"
        by auto
    qed
  qed
  have overlap: "startup layout names [] = Inl TableSpaceConflict"
    if clash: "\<exists>x \<in> set names. \<exists>y \<in> set names.
       x \<noteq> y \<and>
       set (fst (layout x) # snd (layout x)) \<inter> set (fst (layout y) # snd (layout y)) \<noteq> {}"
  proof (cases "startup layout names []")
    case (Inl e)
    then show ?thesis by (cases e) simp
  next
    case (Inr s)
    from clash obtain x y where xy: "x \<in> set names" "y \<in> set names" "x \<noteq> y"
      and meet: "set (fst (layout x) # snd (layout x)) \<inter>
                 set (fst (layout y) # snd (layout y)) \<noteq> {}"
      by blast
    from started [OF Inr] xy obtain tx ty where
      tx: "tx \<in> set s" "app_name tx = x" "tables_of tx = fst (layout x) # snd (layout x)" and
      ty: "ty \<in> set s" "app_name ty = y" "tables_of ty = fst (layout y) # snd (layout y)"
      by blast
    from started [OF Inr] have "disjoint_assignments s" by (rule conjunct1)
    then have "\<forall>a \<in> set s. \<forall>b \<in> set s.
        app_name a \<noteq> app_name b \<longrightarrow> set (tables_of a) \<inter> set (tables_of b) = {}"
      by (simp add: disjoint_assignments_def)
    with tx(1,2) ty(1,2) xy(3) have "set (tables_of tx) \<inter> set (tables_of ty) = {}"
      by blast
    with meet tx(3) ty(3) show ?thesis by simp
  qed
  have later: "disjoint_assignments st' \<and> ta \<in> set st' \<and> app_name ta = app"
    if inv: "disjoint_assignments st" and reg: "register layout st app = Inr (st', ta)"
    using register_preserves [OF inv reg] register_Inr [OF reg] by auto
  have refused: "register layout st app = Inl TableSpaceConflict \<and>
      startup layout (app # rest) st = Inl TableSpaceConflict"
    if fresh: "app \<notin> app_name ` set st"
      and clash: "\<exists>x \<in> set st.
         set (tables_of x) \<inter> ({fst (layout app)} \<union> set (snd (layout app))) \<noteq> {}"
  proof -
    have "register layout st app = Inl TableSpaceConflict"
      using fresh clash by (rule register_conflict [where layout = layout])
    then show ?thesis by simp
  qed
  from started overlap later refused show ?thesis
    by blast
qed

theorem table_assignments_disjoint_witness:
  "startup layout0 [''ue_mac'', ''enforcement''] [] = Inr assignments0 \<and>
   disjoint_assignments assignments0 \<and>
   register layout0 assignments0 ''enforcement'' =
     Inr (assignments0,
          \<lparr>app_name = ''enforcement'', TableAssignment.main_table = 13,
           TableAssignment.scratch_tables = [21, 22]\<rparr>) \<and>
   startup layout0 [''ue_mac'', ''enforcement'', ''enforcement_stats''] [] =
     Inl TableSpaceConflict"
proof -
  have run: "startup layout0 [''ue_mac'', ''enforcement''] [] = Inr assignments0"
    by code_simp
  have again: "register layout0 assignments0 ''enforcement'' =
     Inr (assignments0,
          \<lparr>app_name = ''enforcement'', TableAssignment.main_table = 13,
           TableAssignment.scratch_tables = [21, 22]\<rparr>)"
    by code_simp
  have clash: "\<exists>x \<in> set [''ue_mac'', ''enforcement'', ''enforcement_stats''].
     \<exists>y \<in> set [''ue_mac'', ''enforcement'', ''enforcement_stats''].
       x \<noteq> y \<and>
       set (fst (layout0 x) # snd (layout0 x)) \<inter> set (fst (layout0 y) # snd (layout0 y)) \<noteq> {}"
    by (simp add: layout0_def)
  from table_assignments_disjoint
    [of layout0 "[''ue_mac'', ''enforcement'']" assignments0 "''x''" "[]"
        "\<lparr>app_name = ''x'', TableAssignment.main_table = 20,
          TableAssignment.scratch_tables = []\<rparr>" "[]"]
    run
  have inv: "disjoint_assignments assignments0"
    by blast
  from table_assignments_disjoint
    [of layout0 "[''ue_mac'', ''enforcement'', ''enforcement_stats'']" assignments0 "''x''" "[]"
        "\<lparr>app_name = ''x'', TableAssignment.main_table = 20,
          TableAssignment.scratch_tables = []\<rparr>" "[]"]
    clash
  have stop: "startup layout0 [''ue_mac'', ''enforcement'', ''enforcement_stats''] [] =
     Inl TableSpaceConflict"
    by blast
  from run inv again stop show ?thesis
    by simp
qed

end
